theory Spec2Isabelle
  imports Complex_Main "HOL-Library.Product_Lexorder" "HOL-Library.Option_ord"
begin

section \<open>Python values and library functions\<close>

text \<open>
  The bump chart tool is Python. Its strings are modelled as \<open>string\<close> (ASCII), its
  lists as HOL lists, and every exception the code can raise as a value of \<open>py_error\<close>.
  \<open>str.lower\<close> is modelled on the ASCII letters and \<open>str.strip\<close> on the ASCII
  whitespace characters.
\<close>

datatype py_error = IndexError | KeyError | TimeoutError | OtherError string

text \<open>\<open>str(exc)\<close> of a caught exception; \<open>OtherError\<close> carries its message.\<close>

definition exc_text :: "py_error \<Rightarrow> string" where
  "exc_text e =
     (case e of
        IndexError \<Rightarrow> ''list index out of range''
      | KeyError \<Rightarrow> ''key''
      | TimeoutError \<Rightarrow> ''timeout''
      | OtherError msg \<Rightarrow> msg)"

definition lower_char :: "char \<Rightarrow> char" where
  "lower_char c =
     (case map_of (zip ''ABCDEFGHIJKLMNOPQRSTUVWXYZ'' ''abcdefghijklmnopqrstuvwxyz'') c of
        Some d \<Rightarrow> d
      | None \<Rightarrow> c)"

definition py_lower :: "string \<Rightarrow> string" where
  "py_lower s = map lower_char s"

definition is_space :: "char \<Rightarrow> bool" where
  "is_space c = (c \<in> set [CHR '' '', CHR 0x09, CHR 0x0A, CHR 0x0B, CHR 0x0C, CHR 0x0D,
                           CHR 0x1C, CHR 0x1D, CHR 0x1E, CHR 0x1F])"

definition py_strip :: "string \<Rightarrow> string" where
  "py_strip s = rev (dropWhile is_space (rev (dropWhile is_space s)))"

text \<open>\<open>is_prefix p s\<close> is \<open>s.startswith(p)\<close>; \<open>py_in sub s\<close> is Python's \<open>sub in s\<close> on strings.\<close>

fun is_prefix :: "string \<Rightarrow> string \<Rightarrow> bool" where
  "is_prefix [] s = True"
| "is_prefix (p # ps) [] = False"
| "is_prefix (p # ps) (c # cs) = (p = c \<and> is_prefix ps cs)"

fun py_in :: "string \<Rightarrow> string \<Rightarrow> bool" where
  "py_in sub [] = (sub = [])"
| "py_in sub (c # cs) = (is_prefix sub (c # cs) \<or> py_in sub cs)"

text \<open>\<open>s.replace(c, new)\<close> for a one-character \<open>c\<close>.\<close>

definition replace_char :: "char \<Rightarrow> string \<Rightarrow> string \<Rightarrow> string" where
  "replace_char c new s = concat (map (\<lambda>x. if x = c then new else [x]) s)"

text \<open>\<open>abs(len(a) - len(b))\<close> on natural numbers.\<close>

definition len_diff :: "string \<Rightarrow> string \<Rightarrow> nat" where
  "len_diff a b = (if length a \<le> length b then length b - length a else length a - length b)"

text \<open>\<open>str\<close> of a natural number and of an integer, in decimal.\<close>

definition digit_char :: "nat \<Rightarrow> char" where
  "digit_char d = ''0123456789'' ! (d mod 10)"

fun nat_str :: "nat \<Rightarrow> string" where
  "nat_str n = (if n < 10 then [digit_char n] else nat_str (n div 10) @ [digit_char n])"

declare nat_str.simps [simp del]

definition int_str :: "int \<Rightarrow> string" where
  "int_str i = (if i < 0 then CHR ''-'' # nat_str (nat (- i)) else nat_str (nat i))"

text \<open>
  The decimal fields of \<open>strftime\<close>: \<open>%m\<close>, \<open>%d\<close>, \<open>%H\<close>, \<open>%M\<close> and \<open>%S\<close> are padded
  with a zero to two digits; \<open>%Y\<close> is the year as the C library prints it on Linux,
  without padding.
\<close>

definition pad2 :: "nat \<Rightarrow> string" where
  "pad2 n = (if n < 10 then [CHR ''0'', digit_char n] else nat_str n)"

text \<open>
  A Python float: a finite double, given by its exact value, an infinity or NaN.
  \<open>f_less\<close> is \<open><\<close> on floats, false whenever a NaN is compared; negation and \<open>abs\<close>
  are exact. A difference of finite doubles is rounded to a double: \<open>rnd\<close> takes the
  exact difference to the nearest double (an infinity on overflow).
\<close>

datatype pyfloat = Fin rat | PInf | NInf | NaN

fun f_less :: "pyfloat \<Rightarrow> pyfloat \<Rightarrow> bool" where
  "f_less NaN y = False"
| "f_less x NaN = False"
| "f_less (Fin a) (Fin b) = (a < b)"
| "f_less (Fin a) PInf = True"
| "f_less (Fin a) NInf = False"
| "f_less PInf y = False"
| "f_less NInf (Fin b) = True"
| "f_less NInf PInf = True"
| "f_less NInf NInf = False"

fun f_neg :: "pyfloat \<Rightarrow> pyfloat" where
  "f_neg (Fin a) = Fin (- a)"
| "f_neg PInf = NInf"
| "f_neg NInf = PInf"
| "f_neg NaN = NaN"

fun f_abs :: "pyfloat \<Rightarrow> pyfloat" where
  "f_abs (Fin a) = Fin \<bar>a\<bar>"
| "f_abs PInf = PInf"
| "f_abs NInf = PInf"
| "f_abs NaN = NaN"

fun f_sub :: "(rat \<Rightarrow> pyfloat) \<Rightarrow> pyfloat \<Rightarrow> pyfloat \<Rightarrow> pyfloat" where
  "f_sub rnd NaN y = NaN"
| "f_sub rnd x NaN = NaN"
| "f_sub rnd (Fin a) (Fin b) = rnd (a - b)"
| "f_sub rnd (Fin a) PInf = NInf"
| "f_sub rnd (Fin a) NInf = PInf"
| "f_sub rnd PInf (Fin b) = PInf"
| "f_sub rnd PInf PInf = NaN"
| "f_sub rnd PInf NInf = PInf"
| "f_sub rnd NInf (Fin b) = NInf"
| "f_sub rnd NInf PInf = NInf"
| "f_sub rnd NInf NInf = NaN"

text \<open>
  The place of a float that is not NaN in the order \<open><\<close>, as a pair in lexicographic
  order: \<open>-inf\<close>, then the finite values, then \<open>inf\<close>.
\<close>

definition float_pos :: "pyfloat \<Rightarrow> nat \<times> rat" where
  "float_pos x = (case x of NInf \<Rightarrow> (0, 0) | Fin a \<Rightarrow> (1, a) | PInf \<Rightarrow> (2, 0) | NaN \<Rightarrow> (3, 0))"

text \<open>
  \<open>min(xs, key=k)\<close> on a list with first element \<open>x\<close>: an element replaces the
  current one when its key is less, so the first element with a least key is returned.
\<close>

fun min_by :: "('k \<Rightarrow> 'k \<Rightarrow> bool) \<Rightarrow> ('a \<Rightarrow> 'k) \<Rightarrow> 'a \<Rightarrow> 'a list \<Rightarrow> 'a" where
  "min_by lt k x [] = x"
| "min_by lt k x (y # ys) = min_by lt k (if lt (k y) (k x) then y else x) ys"

text \<open>\<open>xs.index(x)\<close>: the first position of \<open>x\<close>, \<open>None\<close> where Python raises ValueError.\<close>

fun index_of :: "'a \<Rightarrow> 'a list \<Rightarrow> nat option" where
  "index_of x [] = None"
| "index_of x (y # ys) = (if x = y then Some 0 else map_option Suc (index_of x ys))"

text \<open>A \<open>datetime.date\<close> is year, month, day; Python orders dates lexicographically.\<close>

type_synonym date = "nat \<times> nat \<times> nat"

text \<open>
  A naive \<open>datetime\<close>. Python compares two of them field by field, which is the
  lexicographic order of \<open>dt_key\<close>.
\<close>

record datetime =
  year :: nat
  month :: nat
  day :: nat
  hour :: nat
  minute :: nat
  second :: nat
  microsecond :: nat

definition dt_key :: "datetime \<Rightarrow> nat \<times> nat \<times> nat \<times> nat \<times> nat \<times> nat \<times> nat" where
  "dt_key d = (year d, month d, day d, hour d, minute d, second d, microsecond d)"

definition dt_less :: "datetime \<Rightarrow> datetime \<Rightarrow> bool" where
  "dt_less a b = (dt_key a < dt_key b)"

text \<open>\<open>max\<close> and \<open>min\<close> of a generator of datetimes with first element \<open>d\<close>.\<close>

fun max_dt :: "datetime \<Rightarrow> datetime list \<Rightarrow> datetime" where
  "max_dt d [] = d"
| "max_dt d (e # es) = max_dt (if dt_less d e then e else d) es"

fun min_dt :: "datetime \<Rightarrow> datetime list \<Rightarrow> datetime" where
  "min_dt d [] = d"
| "min_dt d (e # es) = min_dt (if dt_less e d then e else d) es"

text \<open>\<open>f"{d:%Y-%m-%d}"\<close> and \<open>d.strftime("%Y-%m-%dT%H:%M:%SZ")\<close>.\<close>

definition format_ymd :: "datetime \<Rightarrow> string" where
  "format_ymd d = nat_str (year d) @ ''-'' @ pad2 (month d) @ ''-'' @ pad2 (day d)"

definition format_iso_z :: "datetime \<Rightarrow> string" where
  "format_iso_z d =
     format_ymd d @ ''T'' @ pad2 (hour d) @ '':'' @ pad2 (minute d) @ '':'' @ pad2 (second d) @ ''Z''"

text \<open>
  A cell of a row returned by the Plex API (a JSON value): null, a string, an integer
  or a float. \<open>CFloat\<close> is also the chart price where the code carries it as the price.
\<close>

datatype cell = CNone | CStr string | CInt int | CFloat pyfloat

type_synonym row = "cell list"

text \<open>
  The builtins and library functions whose behaviour lies outside the repository are
  parameters of the model:
  \<^item> \<open>float_str\<close> is \<open>str\<close> of a float;
  \<^item> \<open>str_float\<close> is \<open>float\<close> of a string, \<open>int_float\<close> is \<open>float\<close> of an integer and
    \<open>str_int\<close> is \<open>int\<close> of a string (\<open>None\<close> where Python raises);
  \<^item> \<open>rnd\<close> rounds an exact value to a double and \<open>round5\<close> is \<open>round(x, 5)\<close>;
  \<^item> \<open>to_datetime\<close> is \<open>pd.to_datetime(cell, errors="coerce")\<close> made naive (\<open>None\<close> for
    NaT or an exception);
  \<^item> \<open>fromisoformat\<close> is \<open>datetime.fromisoformat(s).replace(tzinfo=None)\<close> (\<open>None\<close> where
    it raises);
  \<^item> \<open>timestamp_ok\<close> holds for the dates \<open>pd.to_datetime\<close> turns into a Timestamp (for
    the others it raises);
  \<^item> \<open>nan_first\<close> is the row \<open>sorted\<close> puts first when a key holds a NaN: then \<open><\<close>
    is not an order on the keys and the result depends on the comparisons
    \<open>list.sort\<close> makes.
\<close>

record pylib =
  float_str :: "pyfloat \<Rightarrow> string"
  str_float :: "string \<Rightarrow> pyfloat option"
  int_float :: "int \<Rightarrow> pyfloat option"
  str_int :: "string \<Rightarrow> int option"
  rnd :: "rat \<Rightarrow> pyfloat"
  round5 :: "pyfloat \<Rightarrow> pyfloat"
  to_datetime :: "cell \<Rightarrow> datetime option"
  fromisoformat :: "string \<Rightarrow> datetime option"
  timestamp_ok :: "date \<Rightarrow> bool"
  nan_first :: "(nat \<times> pyfloat) list \<Rightarrow> row list \<Rightarrow> row"

definition py_str :: "pylib \<Rightarrow> cell \<Rightarrow> string" where
  "py_str L c =
     (case c of
        CNone \<Rightarrow> ''None''
      | CStr s \<Rightarrow> s
      | CInt i \<Rightarrow> int_str i
      | CFloat x \<Rightarrow> float_str L x)"

text \<open>\<open>float(c)\<close>, \<open>None\<close> where it raises.\<close>

definition py_float :: "pylib \<Rightarrow> cell \<Rightarrow> pyfloat option" where
  "py_float L c =
     (case c of
        CNone \<Rightarrow> None
      | CStr s \<Rightarrow> str_float L s
      | CInt i \<Rightarrow> int_float L i
      | CFloat x \<Rightarrow> Some x)"

text \<open>Python truthiness of a cell: \<open>None\<close>, the empty string and zero are false.\<close>

definition truthy :: "cell \<Rightarrow> bool" where
  "truthy c =
     (case c of
        CNone \<Rightarrow> False
      | CStr s \<Rightarrow> s \<noteq> []
      | CInt i \<Rightarrow> i \<noteq> 0
      | CFloat x \<Rightarrow> x \<noteq> Fin 0)"

text \<open>\<open>row[i]\<close> on a list: IndexError out of range.\<close>

definition cell_at :: "row \<Rightarrow> nat \<Rightarrow> py_error + cell" where
  "cell_at r i = (if i < length r then Inr (r ! i) else Inl IndexError)"

fun map_err :: "('a \<Rightarrow> py_error + 'b) \<Rightarrow> 'a list \<Rightarrow> py_error + 'b list" where
  "map_err f [] = Inr []"
| "map_err f (x # xs) =
     (case f x of
        Inl e \<Rightarrow> Inl e
      | Inr y \<Rightarrow> (case map_err f xs of Inl e \<Rightarrow> Inl e | Inr ys \<Rightarrow> Inr (y # ys)))"


section \<open>Identity resolution (plex\_api.py)\<close>

definition status_order :: "string list" where
  "status_order = [''Service'', ''Production'', ''Prototype'', ''Development'', ''Obsolete'']"

definition status_rank :: "string \<Rightarrow> nat" where
  "status_rank status_val =
     (case index_of status_val status_order of Some i \<Rightarrow> i | None \<Rightarrow> length status_order)"

definition status_val :: "pylib \<Rightarrow> cell \<Rightarrow> string" where
  "status_val L c = (if c \<noteq> CNone then py_str L c else [])"

text \<open>
  \<open>revision_val\<close> of \<open>sort_key\<close>: \<open>-float("inf")\<close> when the cell is \<open>None\<close> or \<open>""\<close>
  and when \<open>float\<close> raises, else the float of the cell (which can be an infinity or
  NaN).
\<close>

definition revision_val :: "pylib \<Rightarrow> cell \<Rightarrow> pyfloat" where
  "revision_val L c =
     (if c \<notin> {CNone, CStr []}
      then (case py_float L c of None \<Rightarrow> NInf | Some x \<Rightarrow> x)
      else NInf)"

text \<open>
  The local function \<open>sort_key\<close> of \<open>_select_part_key_from_rows\<close>, with the result
  \<open>(rank, -revision_val)\<close>. Reading the status cell can raise IndexError; the revision
  is read inside \<open>try\<close>, so there every exception gives \<open>-inf\<close>.
\<close>

definition sort_key_of :: "pylib \<Rightarrow> nat \<Rightarrow> nat \<Rightarrow> row \<Rightarrow> py_error + (nat \<times> pyfloat)" where
  "sort_key_of L status_idx revision_idx r =
     (case cell_at r status_idx of
        Inl e \<Rightarrow> Inl e
      | Inr sc \<Rightarrow>
          Inr (status_rank (status_val L sc),
               f_neg (case cell_at r revision_idx of
                        Inl e \<Rightarrow> NInf
                      | Inr rc \<Rightarrow> revision_val L rc)))"


definition row_code :: "pylib \<Rightarrow> cell \<Rightarrow> string" where
  "row_code L c = py_lower (py_strip (py_str L c))"

fun filter_customer :: "pylib \<Rightarrow> nat \<Rightarrow> string \<Rightarrow> row list \<Rightarrow> py_error + row list" where
  "filter_customer L cust_code_idx customer_code [] = Inr []"
| "filter_customer L cust_code_idx customer_code (r # rows) =
     (case cell_at r cust_code_idx of
        Inl e \<Rightarrow> Inl e
      | Inr c \<Rightarrow>
          (case filter_customer L cust_code_idx customer_code rows of
             Inl e \<Rightarrow> Inl e
           | Inr matching_rows \<Rightarrow>
               Inr (if row_code L c = customer_code then r # matching_rows
                    else matching_rows)))"

text \<open>
  \<open>sorted(candidate_rows, key=sort_key)[0]\<close>: the keys are computed first. Python
  compares the keys as tuples, the rank first and then the float. Without a NaN this is
  a linear order (the lexicographic order of the rank and \<open>float_pos\<close>), the sort is
  stable, and the first row of the result is taken. With a NaN it is the row the
  library parameter names.
\<close>

definition best_row :: "pylib \<Rightarrow> (nat \<times> pyfloat) list \<Rightarrow> row list \<Rightarrow> row" where
  "best_row L keys candidate_rows =
     (if list_ex (\<lambda>key. snd key = NaN) keys then nan_first L keys candidate_rows
      else snd (hd (sort_key fst
                  (zip (map (\<lambda>key. (fst key, float_pos (snd key))) keys) candidate_rows))))"

text \<open>
  \<open>_select_part_key_from_rows\<close>. The result \<open>None\<close> is \<open>CNone\<close>. The call of
  \<open>logger.info\<close> reads the status and revision cells of the best row, which can raise.
\<close>

definition select_part_key_from_rows ::
  "pylib \<Rightarrow> row list \<Rightarrow> string list \<Rightarrow> string \<Rightarrow> bool \<Rightarrow> py_error + (cell \<times> string)" where
  "select_part_key_from_rows L rows headers customer_code enforce_customer =
     (if rows = [] \<or> headers = [] then Inr (CNone, [])
      else
        case index_of ''Part_Key'' headers of None \<Rightarrow> Inr (CNone, []) | Some part_key_idx \<Rightarrow>
        case index_of ''Part_Status'' headers of None \<Rightarrow> Inr (CNone, []) | Some status_idx \<Rightarrow>
        case index_of ''Revision'' headers of None \<Rightarrow> Inr (CNone, []) | Some revision_idx \<Rightarrow>
        case index_of ''Customer_Code'' headers of None \<Rightarrow> Inr (CNone, []) | Some cust_code_idx \<Rightarrow>
        case (if customer_code \<noteq> [] then filter_customer L cust_code_idx customer_code rows
              else Inr []) of
          Inl e \<Rightarrow> Inl e
        | Inr matching_rows \<Rightarrow>
            let candidate_rows =
                  (if enforce_customer then matching_rows
                   else if matching_rows \<noteq> [] then matching_rows else rows)
            in if candidate_rows = [] then Inr (CNone, [])
               else
                 case map_err (sort_key_of L status_idx revision_idx) candidate_rows of
                   Inl e \<Rightarrow> Inl e
                 | Inr keys \<Rightarrow>
                     let b = best_row L keys candidate_rows in
                     case cell_at b part_key_idx of
                       Inl e \<Rightarrow> Inl e
                     | Inr selected_key \<Rightarrow>
                         (case cell_at b revision_idx of
                            Inl e \<Rightarrow> Inl e
                          | Inr _ \<Rightarrow> Inr (selected_key, [])))"

text \<open>
  The reply of \<open>_query_part_key_api\<close>: the rows and columns of the first table (both
  empty on a non-200 response), or the exception \<open>requests.post\<close> raised.
\<close>

datatype api_reply = Reply "row list" "string list" | Raised py_error

definition build_cache_key :: "string \<Rightarrow> string \<Rightarrow> string" where
  "build_cache_key part_no customer_code =
     part_no @ ''::'' @ (if customer_code = [] then ''none'' else customer_code)"

definition cache_get :: "(string \<rightharpoonup> cell) \<Rightarrow> string \<Rightarrow> cell" where
  "cache_get cache k = (case cache k of None \<Rightarrow> CNone | Some v \<Rightarrow> v)"

text \<open>
  \<open>retrieve_part_key\<close>. \<open>api lookup_field\<close> is \<open>_query_part_key_api\<close> for this part
  number and these credentials. The result is the part key (\<open>CNone\<close> for \<open>None\<close>), the
  status and the cache as the call leaves it. A timeout gives the status \<open>Timed Out\<close>,
  any other exception is logged and gives no part key.
\<close>

definition lookup_both ::
  "pylib \<Rightarrow> (string \<Rightarrow> api_reply) \<Rightarrow> string \<Rightarrow> py_error + (cell \<times> string)" where
  "lookup_both L api normalized_customer =
     (case api ''Part_No'' of
        Raised e \<Rightarrow> Inl e
      | Reply rows headers \<Rightarrow>
          (case select_part_key_from_rows L rows headers normalized_customer True of
             Inl e \<Rightarrow> Inl e
           | Inr (part_key, status) \<Rightarrow>
               if \<not> truthy part_key then
                 (case api ''Customer_Part_No'' of
                    Raised e \<Rightarrow> Inl e
                  | Reply rows2 headers2 \<Rightarrow>
                      select_part_key_from_rows L rows2 headers2 normalized_customer True)
               else Inr (part_key, status)))"

definition retrieve_part_key ::
  "pylib \<Rightarrow> (string \<Rightarrow> api_reply) \<Rightarrow> string \<Rightarrow> string \<Rightarrow> (string \<rightharpoonup> cell)
     \<Rightarrow> cell \<times> string \<times> (string \<rightharpoonup> cell)" where
  "retrieve_part_key L api part_no customer_code_raw cache =
     (let normalized_customer = py_lower (py_strip customer_code_raw);
          cache_key = build_cache_key part_no normalized_customer;
          cached = cache_get cache cache_key;
          cached' = (if \<not> truthy cached \<and> normalized_customer = []
                     then cache_get cache part_no else cached)
      in if truthy cached' then (cached', [], cache)
         else
           case lookup_both L api normalized_customer of
             Inl TimeoutError \<Rightarrow> (CNone, ''Timed Out'', cache)
           | Inl _ \<Rightarrow> (CNone, [], cache)
           | Inr (part_key, status) \<Rightarrow>
               if truthy part_key then
                 (part_key, status,
                  if normalized_customer = []
                  then cache(cache_key \<mapsto> part_key, part_no \<mapsto> part_key)
                  else cache(cache_key \<mapsto> part_key))
               else (part_key, status, cache))"


section \<open>Price resolution (plex\_api.py)\<close>

text \<open>
  The test shared by \<open>_fuzzy_match_customer\<close> and the row filter of
  \<open>_select_price_from_rows\<close>: one string contains the other and the lengths differ by
  at most 2.
\<close>

definition name_match :: "string \<Rightarrow> string \<Rightarrow> bool" where
  "name_match a b = ((py_in a b \<or> py_in b a) \<and> len_diff a b \<le> 2)"

text \<open>
  \<open>_fuzzy_match_customer\<close>. The candidates are a Python set; the list gives them in the
  order the loop meets them. The candidate itself is returned, not its normal form.
\<close>

fun fuzzy_match_customer :: "string \<Rightarrow> string list \<Rightarrow> string option" where
  "fuzzy_match_customer target [] = None"
| "fuzzy_match_customer target (cand # candidates) =
     (if name_match (py_strip (py_lower target)) (py_strip (py_lower cand)) then Some cand
      else fuzzy_match_customer target candidates)"

definition row_date :: "pylib \<Rightarrow> nat \<Rightarrow> row \<Rightarrow> datetime option" where
  "row_date L date_idx r =
     (case cell_at r date_idx of Inl e \<Rightarrow> None | Inr c \<Rightarrow> to_datetime L c)"

text \<open>\<open>row_date and row_date > today\<close>.\<close>

definition is_future :: "datetime \<Rightarrow> datetime option \<Rightarrow> bool" where
  "is_future today d = (case d of None \<Rightarrow> False | Some x \<Rightarrow> dt_less today x)"

text \<open>\<open>start_threshold and row_date is not None and row_date < start_threshold\<close>.\<close>

definition is_older :: "datetime option \<Rightarrow> datetime option \<Rightarrow> bool" where
  "is_older start_threshold d =
     (case start_threshold of
        None \<Rightarrow> False
      | Some t \<Rightarrow> (case d of None \<Rightarrow> False | Some x \<Rightarrow> dt_less x t))"

text \<open>The first loop of \<open>_pick_best_price_row\<close>: \<open>(usable_recent, older_rows)\<close>.\<close>

fun partition_rows ::
  "pylib \<Rightarrow> nat \<Rightarrow> datetime option \<Rightarrow> datetime \<Rightarrow> row list
     \<Rightarrow> (row \<times> datetime option) list \<times> (row \<times> datetime option) list" where
  "partition_rows L date_idx start_threshold today [] = ([], [])"
| "partition_rows L date_idx start_threshold today (r # rows) =
     (let d = row_date L date_idx r;
          (usable_recent, older_rows) = partition_rows L date_idx start_threshold today rows
      in if is_future today d then (usable_recent, older_rows)
         else if is_older start_threshold d then (usable_recent, (r, d) # older_rows)
         else ((r, d) # usable_recent, older_rows))"

text \<open>
  \<open>price_gap\<close>: \<open>abs(float(row[price_idx]) - chart_price)\<close> in floating point, and
  \<open>float("inf")\<close> when reading the cell or \<open>float\<close> raises.
\<close>

definition price_gap :: "pylib \<Rightarrow> nat \<Rightarrow> pyfloat \<Rightarrow> row \<Rightarrow> pyfloat" where
  "price_gap L price_idx chart_price r =
     (case cell_at r price_idx of
        Inl e \<Rightarrow> PInf
      | Inr c \<Rightarrow>
          (case py_float L c of
             None \<Rightarrow> PInf
           | Some p \<Rightarrow> f_abs (f_sub (rnd L) p chart_price)))"

text \<open>
  The choice among \<open>candidates\<close>: \<open>min(candidates, key=price_gap)\<close> when there are
  several (the chart price is a float, never \<open>None\<close>), else \<open>candidates[0]\<close>.
\<close>

definition closest_price :: "pylib \<Rightarrow> nat \<Rightarrow> pyfloat \<Rightarrow> row list \<Rightarrow> py_error + row" where
  "closest_price L price_idx chart_price candidates =
     (case candidates of
        [] \<Rightarrow> Inl IndexError
      | c # cs \<Rightarrow>
          Inr (if cs \<noteq> [] then min_by f_less (price_gap L price_idx chart_price) c cs else c))"

definition dates_of :: "(row \<times> datetime option) list \<Rightarrow> datetime list" where
  "dates_of items = [d. (r, Some d) \<leftarrow> items]"

definition rows_dated :: "datetime \<Rightarrow> (row \<times> datetime option) list \<Rightarrow> row list" where
  "rows_dated best items = [r. (r, d) \<leftarrow> items, d = Some best]"

text \<open>
  \<open>_pick_best_price_row\<close>: the selected row, its date and whether it is an old price.
\<close>

definition pick_best_price_row ::
  "pylib \<Rightarrow> row list \<Rightarrow> nat \<Rightarrow> nat \<Rightarrow> pyfloat \<Rightarrow> datetime option \<Rightarrow> datetime
     \<Rightarrow> py_error + (row option \<times> datetime option \<times> bool)" where
  "pick_best_price_row L rows price_idx date_idx chart_price start_threshold today =
     (if rows = [] then Inr (None, None, False)
      else
        let (usable_recent, older_rows) = partition_rows L date_idx start_threshold today rows
        in if usable_recent \<noteq> [] then
             (let best_date = (case dates_of usable_recent of
                                 [] \<Rightarrow> None
                               | d # ds \<Rightarrow> Some (max_dt d ds));
                  candidates = (case best_date of
                                  Some b \<Rightarrow> rows_dated b usable_recent
                                | None \<Rightarrow> map fst usable_recent)
              in case closest_price L price_idx chart_price candidates of
                   Inl e \<Rightarrow> Inl e
                 | Inr selected \<Rightarrow> Inr (Some selected, best_date, False))
           else if older_rows \<noteq> [] then
             (let oldest_date = (case dates_of older_rows of
                                   [] \<Rightarrow> None
                                 | d # ds \<Rightarrow> Some (min_dt d ds));
                  candidates = (case oldest_date of
                                  Some b \<Rightarrow> rows_dated b older_rows
                                | None \<Rightarrow> map fst older_rows)
              in case closest_price L price_idx chart_price candidates of
                   Inl e \<Rightarrow> Inl e
                 | Inr selected \<Rightarrow> Inr (Some selected, oldest_date, True))
           else Inr (None, None, False))"

text \<open>The customer filter of \<open>_select_price_from_rows\<close>, for a matched customer.\<close>

fun filter_price_rows :: "pylib \<Rightarrow> nat \<Rightarrow> string \<Rightarrow> row list \<Rightarrow> py_error + row list" where
  "filter_price_rows L cust_name_idx matched_customer [] = Inr []"
| "filter_price_rows L cust_name_idx matched_customer (r # rows) =
     (case cell_at r cust_name_idx of
        Inl e \<Rightarrow> Inl e
      | Inr c \<Rightarrow>
          (case filter_price_rows L cust_name_idx matched_customer rows of
             Inl e \<Rightarrow> Inl e
           | Inr filtered_rows \<Rightarrow>
               Inr (if name_match matched_customer (py_lower (py_strip (py_str L c)))
                    then r # filtered_rows else filtered_rows)))"

text \<open>
  \<open>if matched_customer:\<close> holds for a match that is not the empty string; then the rows
  are filtered, otherwise \<open>filtered_rows = rows\<close>.
\<close>

definition matched_truthy :: "string option \<Rightarrow> bool" where
  "matched_truthy m = (case m of None \<Rightarrow> False | Some s \<Rightarrow> s \<noteq> [])"

definition customer_rows ::
  "pylib \<Rightarrow> nat \<Rightarrow> string option \<Rightarrow> row list \<Rightarrow> py_error + row list" where
  "customer_rows L cust_name_idx matched_customer rows =
     (case matched_customer of
        None \<Rightarrow> Inr rows
      | Some m \<Rightarrow> if m \<noteq> [] then filter_price_rows L cust_name_idx m rows else Inr rows)"

text \<open>
  The end of \<open>_select_price_from_rows\<close>, from the row \<open>_pick_best_price_row\<close>
  selected: the price and PO cells of the row and the status.
\<close>

definition selected_result ::
  "nat \<Rightarrow> nat option \<Rightarrow> pyfloat \<Rightarrow> row option \<times> datetime option \<times> bool
     \<Rightarrow> py_error + (cell \<times> string \<times> cell)" where
  "selected_result price_idx po_no_idx chart_price picked =
     (case picked of
        (None, selected_date, used_old_price) \<Rightarrow>
          Inr (CFloat chart_price, ''No suitable PO found'', CStr [])
      | (Some selected_row, selected_date, used_old_price) \<Rightarrow>
          (case cell_at selected_row price_idx of
             Inl e \<Rightarrow> Inl e
           | Inr api_price \<Rightarrow>
               (case (case po_no_idx of
                        None \<Rightarrow> Inr (CStr [])
                      | Some i \<Rightarrow> cell_at selected_row i) of
                  Inl e \<Rightarrow> Inl e
                | Inr po_no \<Rightarrow>
                    Inr (api_price,
                         (case selected_date of
                            Some d \<Rightarrow>
                              if used_old_price then ''Old Price from '' @ format_ymd d
                              else ''Success''
                          | None \<Rightarrow> ''Success''),
                         po_no))))"

text \<open>
  The body of \<open>_select_price_from_rows\<close> once the columns are found and the threshold
  and the customer match are computed.
\<close>

definition select_price_with ::
  "pylib \<Rightarrow> row list \<Rightarrow> nat \<Rightarrow> nat \<Rightarrow> nat \<Rightarrow> nat option \<Rightarrow> string \<Rightarrow> string option
     \<Rightarrow> pyfloat \<Rightarrow> datetime option \<Rightarrow> datetime \<Rightarrow> py_error + (cell \<times> string \<times> cell)" where
  "select_price_with L rows cust_name_idx price_idx date_idx po_no_idx customer_name
       matched_customer chart_price start_threshold today =
     (case customer_rows L cust_name_idx matched_customer rows of
        Inl e \<Rightarrow> Inl e
      | Inr filtered_rows \<Rightarrow>
          if filtered_rows = [] then
            (if matched_truthy matched_customer
             then Inr (CFloat chart_price, ''No PO's under '' @ customer_name @ '' found'', CStr [])
             else Inr (CFloat chart_price, ''No PO's exist yet'', CStr []))
          else
            case pick_best_price_row L filtered_rows price_idx date_idx chart_price
                   start_threshold today of
              Inl e \<Rightarrow> Inl e
            | Inr picked \<Rightarrow> selected_result price_idx po_no_idx chart_price picked)"

text \<open>\<open>start_threshold\<close>: the parsed \<open>date_begin_str\<close>, \<open>None\<close> when empty or unparseable.\<close>

definition parse_threshold :: "pylib \<Rightarrow> string \<Rightarrow> datetime option" where
  "parse_threshold L date_begin_str =
     (if date_begin_str \<noteq> []
      then fromisoformat L (replace_char (CHR ''Z'') ''+00:00'' date_begin_str)
      else None)"

text \<open>
  \<open>_select_price_from_rows\<close>: the price, the status and the PO number. The chart price
  is carried as \<open>CFloat chart_price\<close> and the empty PO number as \<open>CStr []\<close>.
\<close>

definition select_price_from_rows ::
  "pylib \<Rightarrow> row list \<Rightarrow> string list \<Rightarrow> string \<Rightarrow> string list \<Rightarrow> pyfloat \<Rightarrow> string \<Rightarrow> datetime
     \<Rightarrow> py_error + (cell \<times> string \<times> cell)" where
  "select_price_from_rows L rows headers customer_name all_customer_names chart_price
       date_begin_str today =
     (case index_of ''Customer_Name'' headers of
        None \<Rightarrow> Inr (CFloat chart_price, ''PO API missing required columns'', CStr [])
      | Some cust_name_idx \<Rightarrow>
     case index_of ''Unit_Price'' headers of
        None \<Rightarrow> Inr (CFloat chart_price, ''PO API missing required columns'', CStr [])
      | Some price_idx \<Rightarrow>
     case index_of ''Require_Ship_Date'' headers of
        None \<Rightarrow> Inr (CFloat chart_price, ''PO API missing required columns'', CStr [])
      | Some date_idx \<Rightarrow>
          select_price_with L rows cust_name_idx price_idx date_idx (index_of ''PO_No'' headers)
            customer_name
            (if customer_name \<noteq> [] then fuzzy_match_customer customer_name all_customer_names
             else None)
            chart_price (parse_threshold L date_begin_str) today)"

text \<open>
  The answer of the price data source to \<open>requests.post\<close>: a 200 response with the rows
  and columns of its first table, another response with its status code (as text) and
  body, or an exception.
\<close>

datatype price_reply = PReply "row list" "string list" | PStatus string string | PRaised py_error

text \<open>\<open>query_price_api\<close>, given the reply and the current time.\<close>

definition query_price_api ::
  "pylib \<Rightarrow> price_reply \<Rightarrow> string \<Rightarrow> pyfloat \<Rightarrow> string \<Rightarrow> string list \<Rightarrow> datetime
     \<Rightarrow> cell \<times> string \<times> cell" where
  "query_price_api L reply date_begin_str chart_price customer_name all_customer_names today =
     (case reply of
        PRaised TimeoutError \<Rightarrow> (CFloat chart_price, ''Timed Out'', CStr [])
      | PRaised e \<Rightarrow> (CFloat chart_price, ''PO API exception: '' @ exc_text e, CStr [])
      | PStatus code body \<Rightarrow>
          (CFloat chart_price, ''PO API error: '' @ code @ '' '' @ body, CStr [])
      | PReply rows headers \<Rightarrow>
          if rows = [] \<or> headers = [] then (CFloat chart_price, ''No PO's exist yet'', CStr [])
          else
            (case select_price_from_rows L rows headers customer_name all_customer_names
                    chart_price date_begin_str today of
               Inl e \<Rightarrow> (CFloat chart_price, ''PO API exception: '' @ exc_text e, CStr [])
             | Inr res \<Rightarrow> res))"


section \<open>Reading the bump chart (config.py, models.py, readers.py)\<close>

definition PRICE_COLUMN_PRIORITIES :: "string list" where
  "PRICE_COLUMN_PRIORITIES = [''ddp price'', ''fca price'']"

definition CUSTOM_PRICE_COLUMN_MAP :: "(string \<times> string) list" where
  "CUSTOM_PRICE_COLUMN_MAP =
     [(''lear'', ''factory zero''), (''adient'', ''lansing''), (''magna'', ''springhill'')]"

text \<open>
  A row of the sheet is a pandas Series with the labels \<open>0, 1, ...\<close>. The code reads
  every cell through \<open>str\<close>, so a cell is modelled by that string. \<open>row[i]\<close> raises
  KeyError for a label the Series does not have.
\<close>

type_synonym sheet_row = "string list"

definition series_at :: "sheet_row \<Rightarrow> nat \<Rightarrow> py_error + string" where
  "series_at r i = (if i < length r then Inr (r ! i) else Inl KeyError)"

definition bind_err :: "py_error + 'a \<Rightarrow> ('a \<Rightarrow> py_error + 'b) \<Rightarrow> py_error + 'b" where
  "bind_err m f = (case m of Inl e \<Rightarrow> Inl e | Inr x \<Rightarrow> f x)"

text \<open>\<open>for j in range(start_idx, len(header_lower)): if P(header_lower[j]): return j\<close>.\<close>

definition first_col :: "(string \<Rightarrow> bool) \<Rightarrow> string list \<Rightarrow> nat \<Rightarrow> nat option" where
  "first_col P header_lower start_idx =
     find (\<lambda>j. P (header_lower ! j)) [start_idx ..< length header_lower]"

text \<open>The loop over the priorities around it: the first priority with a column wins.\<close>

fun first_priority ::
  "(string \<Rightarrow> string \<Rightarrow> bool) \<Rightarrow> string list \<Rightarrow> string list \<Rightarrow> nat \<Rightarrow> nat option" where
  "first_priority M [] header_lower start_idx = None"
| "first_priority M (priority # ps) header_lower start_idx =
     (case first_col (M priority) header_lower start_idx of
        Some j \<Rightarrow> Some j
      | None \<Rightarrow> first_priority M ps header_lower start_idx)"

text \<open>
  The default logic, written out in both \<open>_find_price_column\<close> and
  \<open>_select_price_column\<close>: an exact match first, then a contains match.
\<close>

definition default_column :: "string list \<Rightarrow> nat \<Rightarrow> nat option" where
  "default_column header_lower start_idx =
     (case first_priority (\<lambda>priority h. h = priority) PRICE_COLUMN_PRIORITIES
             header_lower start_idx of
        Some j \<Rightarrow> Some j
      | None \<Rightarrow> first_priority (\<lambda>priority h. py_in priority h) PRICE_COLUMN_PRIORITIES
                  header_lower start_idx)"

definition find_price_column :: "string list \<Rightarrow> nat \<Rightarrow> nat option" where
  "find_price_column header_values part_col_idx =
     default_column (map py_lower header_values) (part_col_idx + 1)"

fun map_customer_loop :: "string \<Rightarrow> (string \<times> string) list \<Rightarrow> string option" where
  "map_customer_loop customer_lower [] = None"
| "map_customer_loop customer_lower ((key, mapped_header) # items) =
     (if py_in (py_lower key) customer_lower then Some mapped_header
      else map_customer_loop customer_lower items)"

definition map_customer_to_header :: "string \<Rightarrow> string option" where
  "map_customer_to_header customer_name =
     map_customer_loop (py_lower customer_name) CUSTOM_PRICE_COLUMN_MAP"

text \<open>
  The first part of \<open>_select_price_column\<close>: the column of the mapped header, if the
  customer name is given and not empty, maps to a header, and a column contains it.
\<close>

definition mapped_column :: "string list \<Rightarrow> nat \<Rightarrow> string option \<Rightarrow> nat option" where
  "mapped_column header_lower start_idx customer_name =
     (case customer_name of
        None \<Rightarrow> None
      | Some name \<Rightarrow>
          if name = [] then None
          else (case map_customer_to_header name of
                  None \<Rightarrow> None
                | Some mapped_header \<Rightarrow>
                    if mapped_header = [] then None
                    else first_col (py_in (py_lower mapped_header)) header_lower start_idx))"

definition select_price_column :: "string list \<Rightarrow> nat \<Rightarrow> string option \<Rightarrow> nat option" where
  "select_price_column header_values part_col_idx customer_name =
     (let header_lower = map py_lower header_values;
          start_idx = part_col_idx + 1
      in case mapped_column header_lower start_idx customer_name of
           Some j \<Rightarrow> Some j
         | None \<Rightarrow> default_column header_lower start_idx)"

text \<open>
  A price block, the dictionary \<open>_find_price_blocks\<close> builds (its key \<open>date\<close> is
  \<open>block_date\<close>; \<open>None\<close> also stands for NaT).
\<close>

record price_block =
  header_row :: nat
  header_values :: "string list"
  part_col :: nat
  default_price_col :: "nat option"
  block_date :: "date option"

text \<open>The dataclass \<open>ExcelPart\<close> (its field \<open>date\<close> is \<open>part_date\<close>).\<close>

record excel_part =
  part_number :: int
  price :: pyfloat
  program :: string
  pcn :: string
  customer :: string
  oem_plant :: string
  description :: string
  part_date :: "date option"

text \<open>
  One turn of the loop of \<open>_find_most_recent_price\<close>: \<open>None\<close> where the loop
  continues, else the date, part number and price read from the block.
\<close>

definition block_price ::
  "pylib \<Rightarrow> sheet_row \<Rightarrow> nat \<Rightarrow> date \<Rightarrow> string option \<Rightarrow> price_block
     \<Rightarrow> py_error + (date \<times> int \<times> pyfloat) option" where
  "block_price L r row_idx today customer_name block =
     (case block_date block of
        None \<Rightarrow> Inr None
      | Some date_val \<Rightarrow>
          if date_val > today then Inr None
          else if row_idx \<le> header_row block then Inr None
          else
            case select_price_column (header_values block) (part_col block) customer_name of
              None \<Rightarrow> Inr None
            | Some price_col \<Rightarrow>
                bind_err (series_at r (part_col block)) (\<lambda>part_number_cell.
                bind_err (series_at r price_col) (\<lambda>price_cell.
                  case str_int L (py_strip part_number_cell) of
                    None \<Rightarrow> Inr None
                  | Some part_number_int \<Rightarrow>
                      (case str_float L (py_strip (replace_char (CHR '','') []
                                          (replace_char (CHR ''$'') [] price_cell))) of
                         None \<Rightarrow> Inr None
                       | Some price_val \<Rightarrow> Inr (Some (date_val, part_number_int, price_val))))))"

text \<open>
  The loop, with \<open>latest\<close> the triple \<open>(latest_date, latest_part_number, latest_price)\<close>,
  \<open>None\<close> before the first assignment.
\<close>

fun find_loop ::
  "pylib \<Rightarrow> sheet_row \<Rightarrow> nat \<Rightarrow> date \<Rightarrow> string option \<Rightarrow> price_block list
     \<Rightarrow> (date \<times> int \<times> pyfloat) option \<Rightarrow> py_error + (date \<times> int \<times> pyfloat) option" where
  "find_loop L r row_idx today customer_name [] latest = Inr latest"
| "find_loop L r row_idx today customer_name (block # blocks) latest =
     (case block_price L r row_idx today customer_name block of
        Inl e \<Rightarrow> Inl e
      | Inr None \<Rightarrow> find_loop L r row_idx today customer_name blocks latest
      | Inr (Some (date_val, part_number_int, price_val)) \<Rightarrow>
          find_loop L r row_idx today customer_name blocks
            (case latest of
               None \<Rightarrow> Some (date_val, part_number_int, price_val)
             | Some (latest_date, latest_part_number, latest_price) \<Rightarrow>
                 if date_val > latest_date then Some (date_val, part_number_int, price_val)
                 else latest))"

text \<open>\<open>_find_most_recent_price\<close>: the part number, the price and the date, or \<open>None\<close>.\<close>

definition find_most_recent_price ::
  "pylib \<Rightarrow> sheet_row \<Rightarrow> nat \<Rightarrow> price_block list \<Rightarrow> date \<Rightarrow> string option
     \<Rightarrow> py_error + (int \<times> pyfloat \<times> date) option" where
  "find_most_recent_price L r row_idx price_blocks today customer_name =
     (case find_loop L r row_idx today customer_name price_blocks None of
        Inl e \<Rightarrow> Inl e
      | Inr None \<Rightarrow> Inr None
      | Inr (Some (latest_date, latest_part_number, latest_price)) \<Rightarrow>
          Inr (Some (latest_part_number, latest_price, latest_date)))"

text \<open>\<open>s.split(",")\<close>.\<close>

fun split_on :: "char \<Rightarrow> string \<Rightarrow> string list" where
  "split_on c [] = [[]]"
| "split_on c (x # xs) =
     (if x = c then [] # split_on c xs
      else (case split_on c xs of [] \<Rightarrow> [[x]] | w # ws \<Rightarrow> (x # w) # ws))"

text \<open>
  The customers of a row, from \<open>customer_text\<close>: each \<open>customer_name\<close> of the loop with
  the argument \<open>customer_name if has_custom_prices else None\<close> passed on with it.
\<close>

definition customer_args :: "string \<Rightarrow> (string \<times> string option) list" where
  "customer_args customer_text =
     (let has_custom_prices = (CHR '','' \<in> set customer_text);
          customer_names =
            (if has_custom_prices
             then filter (\<lambda>c. c \<noteq> []) (map py_strip (split_on (CHR '','') customer_text))
             else [customer_text])
      in map (\<lambda>customer_name.
                (customer_name, if has_custom_prices then Some customer_name else None))
           customer_names)"

text \<open>\<open>row[idx] if idx is not None else ""\<close>.\<close>

definition meta_cell :: "sheet_row \<Rightarrow> nat option \<Rightarrow> py_error + string" where
  "meta_cell r idx = (case idx of None \<Rightarrow> Inr [] | Some i \<Rightarrow> series_at r i)"

text \<open>The inner loop of \<open>_extract_parts_from_rows\<close> over the customers of one row.\<close>

fun customer_parts ::
  "pylib \<Rightarrow> sheet_row \<Rightarrow> nat \<Rightarrow> price_block list \<Rightarrow> date
     \<Rightarrow> string \<Rightarrow> string \<Rightarrow> string \<Rightarrow> string
     \<Rightarrow> (string \<times> string option) list \<Rightarrow> py_error + excel_part list" where
  "customer_parts L r k price_blocks today program_v pcn_v oem_plant_v description_v [] = Inr []"
| "customer_parts L r k price_blocks today program_v pcn_v oem_plant_v description_v
       ((customer_name, arg) # rest) =
     bind_err (find_most_recent_price L r k price_blocks today arg) (\<lambda>result.
     bind_err (customer_parts L r k price_blocks today program_v pcn_v oem_plant_v
                 description_v rest) (\<lambda>parts.
       Inr (case result of
              None \<Rightarrow> parts
            | Some (part_number_v, price_v, date_v) \<Rightarrow>
                \<lparr>part_number = part_number_v, price = price_v,
                 program = py_strip program_v,
                 pcn = (if py_strip pcn_v \<noteq> [] then py_strip pcn_v else ''95506''),
                 customer = py_strip customer_name,
                 oem_plant = py_strip oem_plant_v,
                 description = py_strip description_v,
                 part_date = Some date_v\<rparr> # parts)))"

text \<open>The body of the outer loop, for the row \<open>k\<close> of the sheet.\<close>

definition row_parts ::
  "pylib \<Rightarrow> (string \<rightharpoonup> nat) \<Rightarrow> price_block list \<Rightarrow> date \<Rightarrow> nat \<Rightarrow> sheet_row
     \<Rightarrow> py_error + excel_part list" where
  "row_parts L col_indices price_blocks today k r =
     bind_err (meta_cell r (col_indices ''program'')) (\<lambda>program_v.
     bind_err (case col_indices ''fisher pcn'' of
                 None \<Rightarrow> Inr ''95506''
               | Some i \<Rightarrow> bind_err (series_at r i) (\<lambda>c.
                            Inr (if py_strip c \<noteq> [] then c else ''95506''))) (\<lambda>pcn_v.
     bind_err (meta_cell r (col_indices ''plex customer code'')) (\<lambda>customer_raw.
     bind_err (meta_cell r (col_indices ''oem plant'')) (\<lambda>oem_plant_v.
     bind_err (meta_cell r (col_indices ''part description'')) (\<lambda>description_v.
       customer_parts L r k price_blocks today program_v pcn_v oem_plant_v description_v
         (customer_args (py_strip customer_raw)))))))"

text \<open>
  \<open>_extract_parts_from_rows\<close>: \<open>df\<close> is the sheet as the list of its rows, and the rows
  \<open>start_table_row + 1, ..., len(df) - 1\<close> are processed in order.
\<close>

fun rows_parts ::
  "pylib \<Rightarrow> (string \<rightharpoonup> nat) \<Rightarrow> price_block list \<Rightarrow> date \<Rightarrow> sheet_row list \<Rightarrow> nat list
     \<Rightarrow> py_error + excel_part list" where
  "rows_parts L col_indices price_blocks today df [] = Inr []"
| "rows_parts L col_indices price_blocks today df (k # ks) =
     bind_err (row_parts L col_indices price_blocks today k (df ! k)) (\<lambda>parts.
     bind_err (rows_parts L col_indices price_blocks today df ks) (\<lambda>more.
       Inr (parts @ more)))"

definition extract_parts_from_rows ::
  "pylib \<Rightarrow> sheet_row list \<Rightarrow> nat \<Rightarrow> (string \<rightharpoonup> nat) \<Rightarrow> price_block list \<Rightarrow> date
     \<Rightarrow> py_error + excel_part list" where
  "extract_parts_from_rows L df start_table_row col_indices price_blocks today =
     rows_parts L col_indices price_blocks today df [start_table_row + 1 ..< length df]"


section \<open>The effective month and the run over the parts (utils.py, compare\_prices.py)\<close>

definition datetime_min :: datetime where
  "datetime_min = \<lparr>year = 1, month = 1, day = 1, hour = 0, minute = 0, second = 0,
                    microsecond = 0\<rparr>"

text \<open>The datetime of a date at midnight.\<close>

definition midnight :: "date \<Rightarrow> datetime" where
  "midnight d = (case d of (y, m, dd) \<Rightarrow>
     \<lparr>year = y, month = m, day = dd, hour = 0, minute = 0, second = 0, microsecond = 0\<rparr>)"

text \<open>
  \<open>compute_effective_month_start\<close>, with \<open>today\<close> the value of \<open>datetime.today()\<close>.
  \<open>pd.to_datetime\<close> turns the date of a part into the Timestamp of that day at
  midnight. A date that is \<open>None\<close>, or for which it raises, gives \<open>datetime.min\<close>,
  which is then replaced by \<open>today\<close>.
\<close>

definition compute_effective_month_start ::
  "pylib \<Rightarrow> datetime \<Rightarrow> date option \<Rightarrow> datetime \<times> string" where
  "compute_effective_month_start L today part_date_v =
     (let parsed = (case part_date_v of
                      None \<Rightarrow> datetime_min
                    | Some d \<Rightarrow> if timestamp_ok L d then midnight d else datetime_min);
          effective_date = (if parsed = datetime_min then today else parsed);
          month_start = effective_date\<lparr>day := 1, hour := 0, minute := 0, second := 0,
                                       microsecond := 0\<rparr>
      in (month_start, format_iso_z month_start))"

definition DEFAULT_PCN :: string where
  "DEFAULT_PCN = ''SCS''"

definition PCN_KEYS :: "string list" where
  "PCN_KEYS = [''BRO'', ''EVV'', ''TROY'', ''SCS'', ''MX'']"

text \<open>
  \<open>get_auth_for_pcn\<close>. \<open>decoded key\<close> is the decoded and stripped value of
  \<open>PCN_AUTH_MAP[key]\<close>, \<open>None\<close> where decoding raises (the variable is not set).
\<close>

definition get_auth_for_pcn ::
  "(string \<Rightarrow> string option) \<Rightarrow> string \<Rightarrow> py_error + (string \<times> string)" where
  "get_auth_for_pcn decoded pcn_v =
     (case decoded (if pcn_v \<in> set PCN_KEYS then pcn_v else DEFAULT_PCN) of
        None \<Rightarrow> Inl (OtherError ''b64decode'')
      | Some text \<Rightarrow>
          if CHR '':'' \<in> set text
          then Inr (takeWhile (\<lambda>c. c \<noteq> CHR '':'') text,
                    drop 1 (dropWhile (\<lambda>c. c \<noteq> CHR '':'') text))
          else Inl (OtherError (''Invalid base64 for PCN '' @ pcn_v)))"

text \<open>The dataclass \<open>PriceResult\<close>; its fields carry the prefix \<open>res_\<close>.\<close>

record price_result =
  res_part_number :: string
  res_chart_price :: pyfloat
  res_plex_price :: cell
  res_delta :: pyfloat
  res_description :: string
  res_pcn :: string
  res_program :: string
  res_oem_plant :: string
  res_customer :: string
  res_po_no :: cell
  res_effective_date :: "date option"
  res_status :: string
  res_part_key :: cell

text \<open>
  What a run reads from outside: the credentials, the customer list, the two data
  sources and the clock.
\<close>

record env =
  decoded_auth :: "string \<Rightarrow> string option"
  customer_code_to_name :: "string \<rightharpoonup> string"
  customer_names :: "string list"
  part_key_api :: "string \<Rightarrow> string \<Rightarrow> string \<Rightarrow> string \<Rightarrow> api_reply"
  price_api :: "string \<Rightarrow> string \<Rightarrow> cell \<Rightarrow> string \<Rightarrow> price_reply"
  now :: datetime

type_synonym price_key = "cell \<times> string \<times> string \<times> string"

type_synonym price_cache = "price_key \<rightharpoonup> (cell \<times> string \<times> cell)"

text \<open>\<open>pcn = str(part.pcn or DEFAULT_PCN)\<close>.\<close>

definition part_pcn :: "excel_part \<Rightarrow> string" where
  "part_pcn p = (if pcn p \<noteq> [] then pcn p else DEFAULT_PCN)"

text \<open>The second component of \<open>compute_effective_month_start(part.date)\<close>.\<close>

definition shipper_begin_str :: "pylib \<Rightarrow> env \<Rightarrow> excel_part \<Rightarrow> string" where
  "shipper_begin_str L E p = snd (compute_effective_month_start L (now E) (part_date p))"

text \<open>\<open>cache_key = (part_key, customer_code_raw, pcn, shipper_begin_str)\<close>.\<close>

definition price_cache_key :: "cell \<Rightarrow> string \<Rightarrow> string \<Rightarrow> string \<Rightarrow> price_key" where
  "price_cache_key part_key_v customer_code_raw pcn_v begin_str =
     (part_key_v, customer_code_raw, pcn_v, begin_str)"

text \<open>
  The price of a part whose key is known: from \<open>price_lookup_cache\<close>, or from
  \<open>query_price_api\<close> and then stored.
\<close>

definition cached_price ::
  "pylib \<Rightarrow> env \<Rightarrow> string \<Rightarrow> string \<Rightarrow> excel_part \<Rightarrow> cell \<Rightarrow> string \<Rightarrow> string
     \<Rightarrow> price_cache \<Rightarrow> (cell \<times> string \<times> cell) \<times> price_cache" where
  "cached_price L E username password p part_key_v customer_code_raw customer_name
       price_lookup_cache =
     (let begin_str = shipper_begin_str L E p;
          cache_key = price_cache_key part_key_v customer_code_raw (part_pcn p) begin_str
      in case price_lookup_cache cache_key of
           Some hit \<Rightarrow> (hit, price_lookup_cache)
         | None \<Rightarrow>
             (let answer = query_price_api L (price_api E username password part_key_v begin_str)
                             begin_str (price p) customer_name (customer_names E) (now E)
              in (answer, price_lookup_cache(cache_key \<mapsto> answer))))"

text \<open>\<open>delta\<close>: the rounded difference, \<open>0.0\<close> where \<open>float(api_price)\<close> raises.\<close>

definition delta_rounded :: "pylib \<Rightarrow> cell \<Rightarrow> pyfloat \<Rightarrow> pyfloat" where
  "delta_rounded L api_price excel_price =
     (case py_float L api_price of
        None \<Rightarrow> Fin 0
      | Some a \<Rightarrow> round5 L (f_sub (rnd L) a excel_price))"

text \<open>
  \<open>_process_part\<close>: the result (\<open>None\<close> when no credentials are found) and the two
  caches as the call leaves them.
\<close>

definition process_part ::
  "pylib \<Rightarrow> env \<Rightarrow> excel_part \<Rightarrow> (string \<rightharpoonup> cell) \<Rightarrow> price_cache
     \<Rightarrow> price_result option \<times> (string \<rightharpoonup> cell) \<times> price_cache" where
  "process_part L E p part_key_cache price_lookup_cache =
     (let part_no = int_str (part_number p);
          excel_price = price p
      in case get_auth_for_pcn (decoded_auth E) (part_pcn p) of
           Inl e \<Rightarrow> (None, part_key_cache, price_lookup_cache)
         | Inr (username, password) \<Rightarrow>
             (let customer_code_raw = py_lower (py_strip (customer p));
                  customer_name = (case customer_code_to_name E customer_code_raw of
                                     None \<Rightarrow> []
                                   | Some n \<Rightarrow> n);
                  (part_key_v, lookup_status, part_key_cache') =
                     retrieve_part_key L (part_key_api E username password part_no) part_no
                       customer_code_raw part_key_cache;
                  ((api_price, status_v, po_no_v), price_lookup_cache') =
                     (if \<not> truthy part_key_v
                      then ((CFloat excel_price,
                             if lookup_status \<noteq> [] then lookup_status
                             else ''No part found (no Part_Key)'',
                             CStr []), price_lookup_cache)
                      else cached_price L E username password p part_key_v customer_code_raw
                             customer_name price_lookup_cache)
              in (Some \<lparr>res_part_number = part_no,
                        res_chart_price = excel_price,
                        res_plex_price = api_price,
                        res_delta = delta_rounded L api_price excel_price,
                        res_description = description p,
                        res_pcn = part_pcn p,
                        res_program = program p,
                        res_oem_plant = oem_plant p,
                        res_customer = customer_name,
                        res_po_no = po_no_v,
                        res_effective_date = part_date p,
                        res_status = status_v,
                        res_part_key = part_key_v\<rparr>,
                  part_key_cache', price_lookup_cache')))"

text \<open>
  The loop of \<open>main\<close> over the parts of one file: the list \<open>results\<close> handed to
  \<open>write_results\<close> and the part key cache. A result with the status
  \<open>No part found (no Part_Key)\<close> is logged and left out.
\<close>

fun process_parts ::
  "pylib \<Rightarrow> env \<Rightarrow> excel_part list \<Rightarrow> (string \<rightharpoonup> cell) \<Rightarrow> price_cache
     \<Rightarrow> price_result list \<times> (string \<rightharpoonup> cell)" where
  "process_parts L E [] part_key_cache price_lookup_cache = ([], part_key_cache)"
| "process_parts L E (p # ps) part_key_cache price_lookup_cache =
     (let (result, part_key_cache', price_lookup_cache') =
            process_part L E p part_key_cache price_lookup_cache;
          (results, part_key_cache'') =
            process_parts L E ps part_key_cache' price_lookup_cache'
      in (case result of
            None \<Rightarrow> results
          | Some res \<Rightarrow>
              if res_status res = ''No part found (no Part_Key)'' then results
              else res # results,
          part_key_cache''))"

definition file_results ::
  "pylib \<Rightarrow> env \<Rightarrow> excel_part list \<Rightarrow> (string \<rightharpoonup> cell)
     \<Rightarrow> price_result list \<times> (string \<rightharpoonup> cell)" where
  "file_results L E excel_parts part_key_cache =
     process_parts L E excel_parts part_key_cache Map.empty"


section \<open>A library instance and concrete inputs\<close>

text \<open>
  An instance of the library parameters, used where the model is run on concrete
  inputs: numbers are read from plain decimal digit strings and dates from
  \<open>YYYY-MM-DD\<close>, and arithmetic on integers is exact. On such inputs it agrees with
  Python.
\<close>

definition digit_val :: "char \<Rightarrow> nat option" where
  "digit_val c = map_of (zip ''0123456789'' [0, 1, 2, 3, 4, 5, 6, 7, 8, 9]) c"

fun digits_nat :: "nat \<Rightarrow> string \<Rightarrow> nat option" where
  "digits_nat acc [] = Some acc"
| "digits_nat acc (c # cs) =
     (case digit_val c of None \<Rightarrow> None | Some d \<Rightarrow> digits_nat (10 * acc + d) cs)"

definition decimal_nat :: "string \<Rightarrow> nat option" where
  "decimal_nat s = (if s = [] then None else digits_nat 0 s)"

definition iso_date :: "string \<Rightarrow> datetime option" where
  "iso_date s =
     (if length s = 10 \<and> s ! 4 = CHR ''-'' \<and> s ! 7 = CHR ''-'' then
        (case decimal_nat (take 4 s) of
           None \<Rightarrow> None
         | Some y \<Rightarrow>
             (case decimal_nat (take 2 (drop 5 s)) of
                None \<Rightarrow> None
              | Some m \<Rightarrow>
                  (case decimal_nat (drop 8 s) of
                     None \<Rightarrow> None
                   | Some d \<Rightarrow> Some (midnight (y, m, d)))))
      else None)"

definition demo_lib :: pylib where
  "demo_lib =
     \<lparr>float_str = (\<lambda>x. ''float''),
      str_float = (\<lambda>s. map_option (\<lambda>n. Fin (of_nat n)) (decimal_nat s)),
      int_float = (\<lambda>i. Some (Fin (of_int i))),
      str_int = (\<lambda>s. map_option int (decimal_nat s)),
      rnd = Fin,
      round5 = (\<lambda>x. x),
      to_datetime = (\<lambda>c. case c of CStr s \<Rightarrow> iso_date s | _ \<Rightarrow> None),
      fromisoformat = (\<lambda>s. iso_date (take 10 s)),
      timestamp_ok = (\<lambda>d. True),
      nan_first = (\<lambda>keys rows. [])\<rparr>"

text \<open>Identity candidates: the three statuses and revisions of the ranking example.\<close>

definition id_headers :: "string list" where
  "id_headers = [''Part_Key'', ''Part_Status'', ''Revision'', ''Customer_Code'']"

definition obsolete_row :: row where
  "obsolete_row = [CInt 1001, CStr ''Obsolete'', CStr ''1'', CStr ''ACME'']"

definition production_row :: row where
  "production_row = [CInt 1002, CStr ''Production'', CStr ''5'', CStr '' Acme '']"

definition service_row :: row where
  "service_row = [CInt 1003, CStr ''Service'', CStr ''2'', CStr ''acme'']"

text \<open>Candidates of one status: the revisions 2 and 5, one that is no number, none.\<close>

definition production_rev2 :: row where
  "production_rev2 = [CInt 1004, CStr ''Production'', CStr ''2'', CStr ''acme'']"

definition production_revA :: row where
  "production_revA = [CInt 1005, CStr ''Production'', CStr ''A'', CStr ''acme'']"

definition production_unrev :: row where
  "production_unrev = [CInt 1006, CStr ''Production'', CNone, CStr ''acme'']"

text \<open>Price candidates.\<close>

definition po_headers :: "string list" where
  "po_headers = [''Customer_Name'', ''Unit_Price'', ''Require_Ship_Date'', ''PO_No'']"

definition po_jan_far :: row where
  "po_jan_far = [CStr ''Acme'', CInt 15, CStr ''2024-01-10'', CStr ''PO-1'']"

definition po_jan_low :: row where
  "po_jan_low = [CStr ''Acme'', CInt 4, CStr ''2024-01-10'', CStr ''PO-6'']"

definition po_jan_close :: row where
  "po_jan_close = [CStr ''Acme'', CInt 9, CStr ''2024-01-10'', CStr ''PO-7'']"

definition po_globex :: row where
  "po_globex = [CStr ''Globex Corp'', CInt 12, CStr ''2024-02-20'', CStr ''PO-8'']"

definition po_jan_near :: row where
  "po_jan_near = [CStr ''Acme'', CInt 11, CStr ''2024-01-10'', CStr ''PO-2'']"

definition po_feb :: row where
  "po_feb = [CStr ''Acme'', CInt 10, CStr ''2024-02-20'', CStr ''PO-3'']"

definition po_undated :: row where
  "po_undated = [CStr ''Acme'', CInt 13, CNone, CStr ''PO-4'']"

definition po_future :: row where
  "po_future = [CStr ''Acme'', CInt 10, CStr ''2031-01-01'', CStr ''PO-5'']"

definition demo_today :: datetime where
  "demo_today = midnight (2024, 6, 15)"

text \<open>A sheet with two dated price blocks, and one with a customer column.\<close>

definition block_jan :: price_block where
  "block_jan = \<lparr>header_row = 1, header_values = [''Part Number'', ''DDP Price'', '''', ''''],
                 part_col = 0, default_price_col = Some 1, block_date = Some (2024, 1, 1)\<rparr>"

definition block_may :: price_block where
  "block_may = \<lparr>header_row = 1, header_values = ['''', '''', ''Part Number'', ''FCA Price''],
                 part_col = 2, default_price_col = Some 3, block_date = Some (2024, 5, 1)\<rparr>"

definition two_block_row :: sheet_row where
  "two_block_row = [''12345'', ''$1,000'', '' 12345 '', ''$1,250'']"

definition lear_block :: price_block where
  "lear_block =
     \<lparr>header_row = 0,
      header_values = [''Part Number'', ''DDP Price'', ''Factory Zero Price'', ''Lansing Price'',
                       ''Plex Customer Code''],
      part_col = 0, default_price_col = Some 1, block_date = Some (2024, 5, 1)\<rparr>"

definition lear_cols :: "string \<rightharpoonup> nat" where
  "lear_cols = [''part number'' \<mapsto> 0, ''plex customer code'' \<mapsto> 4]"

definition lear_row :: sheet_row where
  "lear_row = [''12345'', ''10'', ''20'', ''30'', ''Lear'']"

definition lear_adient_row :: sheet_row where
  "lear_adient_row = [''12345'', ''10'', ''20'', ''30'', ''Lear, Adient'']"

text \<open>A run with one part: a data source that times out, and one that finds nothing.\<close>

definition demo_part :: excel_part where
  "demo_part = \<lparr>part_number = 12345, price = Fin 10, program = ''T1'', pcn = ''SCS'',
                 customer = ''acme'', oem_plant = ''Lansing'', description = ''Bracket'',
                 part_date = Some (2024, 5, 17)\<rparr>"

definition env_timeout :: env where
  "env_timeout =
     \<lparr>decoded_auth = (\<lambda>k. Some ''user:secret''),
      customer_code_to_name = [''acme'' \<mapsto> ''Acme''],
      customer_names = [''acme''],
      part_key_api = (\<lambda>u pw part_no field. Raised TimeoutError),
      price_api = (\<lambda>u pw k begin. PReply [] []),
      now = demo_today\<rparr>"

definition env_found :: env where
  "env_found =
     \<lparr>decoded_auth = (\<lambda>k. Some ''user:secret''),
      customer_code_to_name = [''acme'' \<mapsto> ''Acme''],
      customer_names = [''acme''],
      part_key_api = (\<lambda>u pw part_no field. Reply [service_row] id_headers),
      price_api = (\<lambda>u pw k begin.
         if begin = ''2024-05-01T00:00:00Z'' then PReply [po_feb] po_headers
         else PStatus ''400'' ''unexpected date''),
      now = demo_today\<rparr>"

definition env_nothing :: env where
  "env_nothing =
     \<lparr>decoded_auth = (\<lambda>k. Some ''user:secret''),
      customer_code_to_name = [''acme'' \<mapsto> ''Acme''],
      customer_names = [''acme''],
      part_key_api = (\<lambda>u pw part_no field. Reply [] []),
      price_api = (\<lambda>u pw k begin. PReply [] []),
      now = demo_today\<rparr>"


section \<open>Lists, keys and searches\<close>

text \<open>The two cases of \<open>nat_str\<close>, as conditional equations.\<close>

lemma nat_str_digit: "n < 10 \<Longrightarrow> nat_str n = [digit_char n]"
  by (simp add: nat_str.simps)

lemma nat_str_more: "\<not> n < 10 \<Longrightarrow> nat_str n = nat_str (n div 10) @ [digit_char n]"
  by (subst nat_str.simps) simp

lemma index_of_Some: "index_of x xs = Some i \<Longrightarrow> i < length xs \<and> xs ! i = x"
  by (induction xs arbitrary: i) (auto split: if_splits)











lemma min_by_in: "min_by lt k x ys \<in> set (x # ys)"
  by (induction ys arbitrary: x) auto

lemma hd_tl_min_by_in: "cs \<noteq> [] \<Longrightarrow> min_by lt k (hd cs) (tl cs) \<in> set cs"
  using min_by_in[of lt k "hd cs" "tl cs"] by (cases cs) auto



lemma min_dt_props:
  "min_dt d es \<in> set (d # es) \<and> (\<forall>e\<in>set (d # es). \<not> dt_less e (min_dt d es))"
proof (induction es arbitrary: d)
  case Nil
  then show ?case by (simp add: dt_less_def)
next
  case (Cons e es)
  from Cons.IH[of "if dt_less e d then e else d"] show ?case
    by (auto simp: dt_less_def split: if_splits)
qed

lemma max_dt_props:
  "max_dt d es \<in> set (d # es) \<and> (\<forall>e\<in>set (d # es). \<not> dt_less (max_dt d es) e)"
proof (induction es arbitrary: d)
  case Nil
  then show ?case by (simp add: dt_less_def)
next
  case (Cons e es)
  from Cons.IH[of "if dt_less d e then e else d"] show ?case
    by (auto simp: dt_less_def split: if_splits)
qed

lemma find_upt_Some:
  "find P [s ..< n] = Some j \<longleftrightarrow> s \<le> j \<and> j < n \<and> P j \<and> (\<forall>i. s \<le> i \<and> i < j \<longrightarrow> \<not> P i)"
proof -
  have "find P [s ..< n] = Some j \<longleftrightarrow>
      (\<exists>i<length [s ..< n]. P ([s ..< n] ! i) \<and> j = [s ..< n] ! i \<and> (\<forall>i'<i. \<not> P ([s ..< n] ! i')))"
    by (rule find_Some_iff)
  also have "\<dots> \<longleftrightarrow> s \<le> j \<and> j < n \<and> P j \<and> (\<forall>i. s \<le> i \<and> i < j \<longrightarrow> \<not> P i)"
  proof
    assume "\<exists>i<length [s ..< n]. P ([s ..< n] ! i) \<and> j = [s ..< n] ! i \<and> (\<forall>i'<i. \<not> P ([s ..< n] ! i'))"
    then obtain i where i: "i < n - s" "P (s + i)" "j = s + i" "\<forall>i'<i. \<not> P ([s ..< n] ! i')"
      by auto
    have "\<not> P i'" if "s \<le> i'" "i' < j" for i'
    proof -
      have "i' - s < i" using that i(3) by arith
      then have "\<not> P ([s ..< n] ! (i' - s))" using i(4) by blast
      moreover have "i' - s < n - s" using \<open>i' - s < i\<close> i(1) by arith
      ultimately show ?thesis using that(1) by simp
    qed
    then show "s \<le> j \<and> j < n \<and> P j \<and> (\<forall>i. s \<le> i \<and> i < j \<longrightarrow> \<not> P i)" using i by auto
  next
    assume a: "s \<le> j \<and> j < n \<and> P j \<and> (\<forall>i. s \<le> i \<and> i < j \<longrightarrow> \<not> P i)"
    then have "j - s < length [s ..< n]" "P ([s ..< n] ! (j - s))" "j = [s ..< n] ! (j - s)"
      by auto
    moreover have "\<forall>i'<j - s. \<not> P ([s ..< n] ! i')" using a by auto
    ultimately show "\<exists>i<length [s ..< n]. P ([s ..< n] ! i) \<and> j = [s ..< n] ! i \<and> (\<forall>i'<i. \<not> P ([s ..< n] ! i'))"
      by blast
  qed
  finally show ?thesis .
qed

lemma find_upt_None: "find P [s ..< n] = None \<longleftrightarrow> (\<forall>j. s \<le> j \<and> j < n \<longrightarrow> \<not> P j)"
  by (auto simp: find_None_iff)


section \<open>Identity resolution: the customer filter and the ranking\<close>

lemma filter_customer_wf:
  "\<forall>r\<in>set rows. i < length r \<Longrightarrow>
   filter_customer L i cc rows = Inr (filter (\<lambda>r. row_code L (r ! i) = cc) rows)"
  by (induction rows) (auto simp: cell_at_def)


text \<open>The selection on rows that have a cell for every column.\<close>

lemma select_wf_none:
  assumes wf: "\<forall>r\<in>set rows. length headers \<le> length r"
    and pk: "index_of ''Part_Key'' headers = Some pk"
    and st: "index_of ''Part_Status'' headers = Some st"
    and rv: "index_of ''Revision'' headers = Some rv"
    and ci: "index_of ''Customer_Code'' headers = Some ci"
    and cc: "customer_code \<noteq> []"
    and none: "filter (\<lambda>r. row_code L (r ! ci) = customer_code) rows = []"
  shows "select_part_key_from_rows L rows headers customer_code True = Inr (CNone, [])"
proof -
  have "ci < length r" if "r \<in> set rows" for r
    using that wf index_of_Some[OF ci] by fastforce
  then have fc: "filter_customer L ci customer_code rows = Inr []"
    using filter_customer_wf[of rows ci L customer_code] none by simp
  show ?thesis using fc cc pk st rv ci
    by (auto simp: select_part_key_from_rows_def)
qed


lemma select_empty_customer:
  "select_part_key_from_rows L rows headers [] True = Inr (CNone, [])"
  by (simp add: select_part_key_from_rows_def split: option.splits)

text \<open>
  Claim C8. With a customer code that is not empty and no row whose customer code
  (as a string, stripped and in lower case) equals it, \<open>_select_part_key_from_rows\<close>,
  called with \<open>enforce_customer=True\<close> as \<open>retrieve_part_key\<close> always does, returns
  no part key, whatever rows there are: the candidates are not widened to all rows.
\<close>

theorem customer_filter_strict:
  assumes "customer_code \<noteq> []"
    and "\<forall>r\<in>set rows. length headers \<le> length r"
    and "\<forall>r\<in>set rows. \<forall>i. index_of ''Customer_Code'' headers = Some i
           \<longrightarrow> row_code L (r ! i) \<noteq> customer_code"
  shows "select_part_key_from_rows L rows headers customer_code True = Inr (CNone, [])"
proof (cases "\<exists>pk st rv ci. index_of ''Part_Key'' headers = Some pk
    \<and> index_of ''Part_Status'' headers = Some st \<and> index_of ''Revision'' headers = Some rv
    \<and> index_of ''Customer_Code'' headers = Some ci")
  case True
  then obtain pk st rv ci where ix: "index_of ''Part_Key'' headers = Some pk"
    "index_of ''Part_Status'' headers = Some st" "index_of ''Revision'' headers = Some rv"
    "index_of ''Customer_Code'' headers = Some ci" by blast
  have "filter (\<lambda>r. row_code L (r ! ci) = customer_code) rows = []"
    using assms(3) ix(4) by (auto simp: filter_empty_conv)
  then show ?thesis using select_wf_none[OF assms(2) ix assms(1)] by simp
next
  case False
  then show ?thesis
    by (auto simp: select_part_key_from_rows_def split: option.splits)
qed


lemmas identity_defs =
  select_part_key_from_rows_def id_headers_def obsolete_row_def production_row_def
  service_row_def production_rev2_def production_revA_def production_unrev_def
  cell_at_def row_code_def py_str_def py_lower_def py_strip_def lower_char_def
  is_space_def sort_key_of_def status_rank_def status_order_def status_val_def
  revision_val_def float_pos_def py_float_def demo_lib_def decimal_nat_def digit_val_def
  best_row_def


text \<open>The example of the specification: the Service entry wins in every input order.\<close>

lemma service_wins_in_every_order:
  "select_part_key_from_rows demo_lib [obsolete_row, production_row, service_row]
     id_headers ''acme'' True = Inr (CInt 1003, [])"
  "select_part_key_from_rows demo_lib [obsolete_row, service_row, production_row]
     id_headers ''acme'' True = Inr (CInt 1003, [])"
  "select_part_key_from_rows demo_lib [production_row, obsolete_row, service_row]
     id_headers ''acme'' True = Inr (CInt 1003, [])"
  "select_part_key_from_rows demo_lib [production_row, service_row, obsolete_row]
     id_headers ''acme'' True = Inr (CInt 1003, [])"
  "select_part_key_from_rows demo_lib [service_row, obsolete_row, production_row]
     id_headers ''acme'' True = Inr (CInt 1003, [])"
  "select_part_key_from_rows demo_lib [service_row, production_row, obsolete_row]
     id_headers ''acme'' True = Inr (CInt 1003, [])"
  by (simp_all add: identity_defs)

theorem customer_filter_strict_witness:
  "''globex'' \<noteq> []
   \<and> list_all (\<lambda>r. length id_headers \<le> length r) [obsolete_row, production_row, service_row]
   \<and> list_all (\<lambda>r. row_code demo_lib (r ! 3) \<noteq> ''globex'')
         [obsolete_row, production_row, service_row]
   \<and> select_part_key_from_rows demo_lib [obsolete_row, production_row, service_row]
         id_headers ''globex'' True = Inr (CNone, [])"
  using customer_filter_strict[of "''globex''" "[obsolete_row, production_row, service_row]"
      id_headers demo_lib]
  by (simp add: identity_defs)

text \<open>
  Claim C1. With an empty customer code the claim expects the best-ranked row of all
  the rows. \<open>matching_rows\<close> is filled only under \<open>if customer_code:\<close>, and with
  \<open>enforce_customer=True\<close> the candidates are \<open>matching_rows\<close> alone: the code returns
  no part key for every list of rows, here for a single Production row through both
  lookups of \<open>retrieve_part_key\<close>.
\<close>

theorem empty_customer_code_finds_no_part_key:
  "select_part_key_from_rows demo_lib [production_row] id_headers [] True = Inr (CNone, [])
   \<and> retrieve_part_key demo_lib (\<lambda>lookup_field. Reply [production_row] id_headers)
         ''12345'' [] Map.empty = (CNone, [], Map.empty)
   \<and> select_part_key_from_rows demo_lib [production_row] id_headers [] False
       = Inr (CInt 1002, [])"
  by (simp add: identity_defs retrieve_part_key_def lookup_both_def build_cache_key_def
      cache_get_def truthy_def)


section \<open>Price resolution\<close>

lemma fuzzy_none:
  "fuzzy_match_customer target cands = None \<longleftrightarrow>
     (\<forall>c\<in>set cands. \<not> name_match (py_strip (py_lower target)) (py_strip (py_lower c)))"
  by (induction cands) auto

lemma select_price_unmatched:
  assumes "fuzzy_match_customer customer_name all_customer_names = None"
  shows "select_price_from_rows L rows headers customer_name all_customer_names chart_price
           date_begin_str today
         = select_price_from_rows L rows headers [] all_customer_names chart_price
           date_begin_str today"
proof -
  have "select_price_with L rows ci pidx di po customer_name None chart_price th today
      = select_price_with L rows ci pidx di po [] None chart_price th today" for ci pidx di po th
    by (simp add: select_price_with_def customer_rows_def matched_truthy_def)
  then show ?thesis using assms by (simp add: select_price_from_rows_def split: option.split)
qed

lemma partition_rows_eq:
  "partition_rows L di th today rows =
     (map (\<lambda>r. (r, row_date L di r))
        (filter (\<lambda>r. \<not> is_future today (row_date L di r) \<and> \<not> is_older th (row_date L di r)) rows),
      map (\<lambda>r. (r, row_date L di r))
        (filter (\<lambda>r. \<not> is_future today (row_date L di r) \<and> is_older th (row_date L di r)) rows))"
  by (induction rows) (auto simp: Let_def)

lemma dates_of_map:
  "set (dates_of (map (\<lambda>r. (r, f r)) rows)) = {x. \<exists>r\<in>set rows. f r = Some x}"
  by (induction rows) (auto simp: dates_of_def split: option.splits)

lemma rows_dated_map:
  "rows_dated b (map (\<lambda>r. (r, f r)) rows) = filter (\<lambda>r. f r = Some b) rows"
  by (induction rows) (auto simp: rows_dated_def)

lemma closest_price_min_by:
  "closest_price L pidx cp (c # cs) = Inr (min_by f_less (price_gap L pidx cp) c cs)"
  by (cases cs) (simp_all add: closest_price_def)

lemma group_candidates:
  assumes "rs \<noteq> []"
    and items_def: "items = map (\<lambda>r. (r, f r)) rs"
    and bd: "bd = (case dates_of items of [] \<Rightarrow> None | d # ds \<Rightarrow> Some (pick d ds))"
    and pick_in: "\<And>d ds. pick d ds \<in> set (d # ds)"
  shows "(case bd of Some b \<Rightarrow> rows_dated b items | None \<Rightarrow> map fst items) \<noteq> []
       \<and> set (case bd of Some b \<Rightarrow> rows_dated b items | None \<Rightarrow> map fst items) \<subseteq> set rs"
proof (cases "dates_of items")
  case Nil
  then show ?thesis using assms(1) bd by (auto simp: items_def)
next
  case (Cons d ds)
  then have b: "bd = Some (pick d ds)" using bd by simp
  have "pick d ds \<in> set (dates_of items)" using pick_in[of d ds] Cons by simp
  then obtain r where "r \<in> set rs" "f r = Some (pick d ds)"
    unfolding items_def dates_of_map by blast
  then have "filter (\<lambda>r. f r = Some (pick d ds)) rs \<noteq> []"
    by (auto simp: filter_empty_conv)
  then show ?thesis unfolding b items_def by (auto simp: rows_dated_map)
qed

lemma pick_result:
  fixes L di th today
  assumes "rows \<noteq> []"
  defines "rec \<equiv> filter (\<lambda>r. \<not> is_future today (row_date L di r) \<and> \<not> is_older th (row_date L di r)) rows"
    and "old \<equiv> filter (\<lambda>r. \<not> is_future today (row_date L di r) \<and> is_older th (row_date L di r)) rows"
  shows "pick_best_price_row L rows pidx di cp th today =
     (if rec \<noteq> [] then
        (let items = map (\<lambda>r. (r, row_date L di r)) rec;
             best_date = (case dates_of items of [] \<Rightarrow> None | d # ds \<Rightarrow> Some (max_dt d ds));
             candidates = (case best_date of Some b \<Rightarrow> rows_dated b items | None \<Rightarrow> map fst items)
         in Inr (Some (min_by f_less (price_gap L pidx cp) (hd candidates) (tl candidates)), best_date, False))
      else if old \<noteq> [] then
        (let items = map (\<lambda>r. (r, row_date L di r)) old;
             oldest_date = (case dates_of items of [] \<Rightarrow> None | d # ds \<Rightarrow> Some (min_dt d ds));
             candidates = (case oldest_date of Some b \<Rightarrow> rows_dated b items | None \<Rightarrow> map fst items)
         in Inr (Some (min_by f_less (price_gap L pidx cp) (hd candidates) (tl candidates)), oldest_date, True))
      else Inr (None, None, False))"
proof -
  have part: "partition_rows L di th today rows =
      (map (\<lambda>r. (r, row_date L di r)) rec, map (\<lambda>r. (r, row_date L di r)) old)"
    unfolding rec_def old_def by (rule partition_rows_eq)
  have cp: "cs \<noteq> [] \<Longrightarrow> closest_price L pidx cp cs
       = Inr (min_by f_less (price_gap L pidx cp) (hd cs) (tl cs))" for cs
    by (cases cs) (simp_all add: closest_price_min_by)
  show ?thesis
  proof (cases "rec \<noteq> []")
    case True
    from group_candidates[where f="row_date L di" and pick=max_dt, OF True refl refl] max_dt_props
    have "(case (case dates_of (map (\<lambda>r. (r, row_date L di r)) rec) of [] \<Rightarrow> None
                 | d # ds \<Rightarrow> Some (max_dt d ds)) of
             Some b \<Rightarrow> rows_dated b (map (\<lambda>r. (r, row_date L di r)) rec)
           | None \<Rightarrow> map fst (map (\<lambda>r. (r, row_date L di r)) rec)) \<noteq> []"
      by blast
    from cp[OF this] show ?thesis using True assms(1)
      by (simp add: pick_best_price_row_def part Let_def)
  next
    case False
    show ?thesis
    proof (cases "old \<noteq> []")
      case True
      from group_candidates[where f="row_date L di" and pick=min_dt, OF True refl refl] min_dt_props
      have "(case (case dates_of (map (\<lambda>r. (r, row_date L di r)) old) of [] \<Rightarrow> None
                   | d # ds \<Rightarrow> Some (min_dt d ds)) of
               Some b \<Rightarrow> rows_dated b (map (\<lambda>r. (r, row_date L di r)) old)
             | None \<Rightarrow> map fst (map (\<lambda>r. (r, row_date L di r)) old)) \<noteq> []"
        by blast
      from cp[OF this] show ?thesis using True False assms(1)
        by (simp add: pick_best_price_row_def part Let_def)
    next
      case F2: False
      then show ?thesis using False assms(1)
        by (simp add: pick_best_price_row_def part Let_def)
    qed
  qed
qed

lemma pick_selected_not_future:
  assumes "pick_best_price_row L rows pidx di cp th today = Inr (Some sel, d, old)"
  shows "sel \<in> set rows \<and> \<not> is_future today (row_date L di sel)"
proof -
  have ne: "rows \<noteq> []" using assms by (auto simp: pick_best_price_row_def)
  define recent where "recent = filter (\<lambda>r. \<not> is_future today (row_date L di r)
      \<and> \<not> is_older th (row_date L di r)) rows"
  define older where "older = filter (\<lambda>r. \<not> is_future today (row_date L di r)
      \<and> is_older th (row_date L di r)) rows"
  note pr = pick_result[OF ne, of L pidx di cp th today, folded recent_def older_def]
  show ?thesis
  proof (cases "recent \<noteq> []")
    case True
    define cands where "cands = (case (case dates_of (map (\<lambda>r. (r, row_date L di r)) recent) of
          [] \<Rightarrow> None | d # ds \<Rightarrow> Some (max_dt d ds)) of
        Some b \<Rightarrow> rows_dated b (map (\<lambda>r. (r, row_date L di r)) recent)
      | None \<Rightarrow> map fst (map (\<lambda>r. (r, row_date L di r)) recent))"
    from group_candidates[where f="row_date L di" and pick=max_dt, OF True refl refl] max_dt_props
    have c: "cands \<noteq> [] \<and> set cands \<subseteq> set recent" unfolding cands_def by blast
    have "sel = min_by f_less (price_gap L pidx cp) (hd cands) (tl cands)"
      using assms True unfolding pr cands_def by (auto simp: Let_def)
    then have "sel \<in> set recent" using hd_tl_min_by_in c by blast
    then show ?thesis by (simp add: recent_def)
  next
    case False
    then have o: "older \<noteq> []" using assms unfolding pr by (auto split: if_splits)
    define cands where "cands = (case (case dates_of (map (\<lambda>r. (r, row_date L di r)) older) of
          [] \<Rightarrow> None | d # ds \<Rightarrow> Some (min_dt d ds)) of
        Some b \<Rightarrow> rows_dated b (map (\<lambda>r. (r, row_date L di r)) older)
      | None \<Rightarrow> map fst (map (\<lambda>r. (r, row_date L di r)) older))"
    from group_candidates[where f="row_date L di" and pick=min_dt, OF o refl refl] min_dt_props
    have c: "cands \<noteq> [] \<and> set cands \<subseteq> set older" unfolding cands_def by blast
    have "sel = min_by f_less (price_gap L pidx cp) (hd cands) (tl cands)"
      using assms False o unfolding pr cands_def by (auto simp: Let_def)
    then have "sel \<in> set older" using hd_tl_min_by_in c by blast
    then show ?thesis by (simp add: older_def)
  qed
qed

lemma undated_is_recent:
  assumes "r \<in> set rows" and "row_date L di r = None"
  shows "(r, None) \<in> set (fst (partition_rows L di th today rows))"
    and "\<exists>sel d. pick_best_price_row L rows pidx di cp th today = Inr (Some sel, d, False)"
proof -
  have keep: "\<not> is_future today (row_date L di r) \<and> \<not> is_older th (row_date L di r)"
    using assms(2) by (simp add: is_future_def is_older_def split: option.splits)
  show "(r, None) \<in> set (fst (partition_rows L di th today rows))"
    using assms keep by (force simp: partition_rows_eq)
  have ne: "rows \<noteq> []" using assms(1) by auto
  have "filter (\<lambda>r. \<not> is_future today (row_date L di r)
      \<and> \<not> is_older th (row_date L di r)) rows \<noteq> []"
    using assms(1) keep by (auto simp: filter_empty_conv)
  then show "\<exists>sel d. pick_best_price_row L rows pidx di cp th today = Inr (Some sel, d, False)"
    unfolding pick_result[OF ne] by (simp add: Let_def)
qed

text \<open>
  Claim C6. Whatever the rows and their order, a row \<open>_pick_best_price_row\<close> selects
  is one of the rows given and its ship date is not after \<open>today\<close>. A row whose ship
  date cannot be parsed is kept in \<open>usable_recent\<close>, whatever the threshold, and then
  the row selected is a recent one, not an old price.
\<close>

theorem future_dates_excluded:
  "(\<forall>sel d old. pick_best_price_row L rows pidx di cp th today = Inr (Some sel, d, old)
       \<longrightarrow> sel \<in> set rows \<and> (\<forall>x. row_date L di sel = Some x \<longrightarrow> \<not> dt_less today x))
   \<and> (\<forall>r\<in>set rows. row_date L di r = None \<longrightarrow>
        (r, None) \<in> set (fst (partition_rows L di th today rows))
        \<and> (\<exists>sel d. pick_best_price_row L rows pidx di cp th today = Inr (Some sel, d, False)))"
  using pick_selected_not_future undated_is_recent
  by (fastforce simp: is_future_def)




lemmas price_defs =
  select_price_from_rows_def select_price_with_def selected_result_def customer_rows_def
  matched_truthy_def parse_threshold_def replace_char_def pick_best_price_row_def
  closest_price_def dates_of_def rows_dated_def price_gap_def row_date_def is_future_def
  is_older_def dt_less_def dt_key_def cell_at_def py_float_def py_str_def name_match_def
  len_diff_def py_lower_def py_strip_def lower_char_def is_space_def format_ymd_def pad2_def
  nat_str_digit nat_str_more digit_char_def po_headers_def po_jan_far_def po_jan_near_def po_feb_def
  po_jan_low_def po_jan_close_def po_globex_def
  po_undated_def po_future_def demo_today_def demo_lib_def iso_date_def midnight_def
  decimal_nat_def digit_val_def Let_def


theorem future_dates_excluded_witness:
  "row_date demo_lib 2 po_future = Some (midnight (2031, 1, 1))
   \<and> dt_less demo_today (midnight (2031, 1, 1))
   \<and> row_date demo_lib 2 po_undated = None
   \<and> pick_best_price_row demo_lib [po_future, po_undated, po_feb] 1 2 (Fin 10)
         (Some (midnight (2024, 3, 1))) demo_today
       = Inr (Some po_undated, None, False)"
  using future_dates_excluded[of demo_lib "[po_future, po_undated, po_feb]" 1 2 "Fin 10"
      "Some (midnight (2024, 3, 1))" demo_today]
  by (simp add: price_defs)

text \<open>
  Claim C2, as stated, fails: the customer name \<open>Globex\<close> matches no known name, and
  the resolver selects the price of a row of another customer with the status
  \<open>Success\<close>.
\<close>

theorem unmatched_customer_counterexample:
  "fuzzy_match_customer ''Globex'' [''acme''] = None
   \<and> select_price_from_rows demo_lib [po_jan_near] po_headers ''Globex'' [''acme''] (Fin 10)
         ''2024-01-01T00:00:00Z'' demo_today
       = Inr (CInt 11, ''Success'', CStr ''PO-2'')"
  by (simp add: price_defs)

lemma fuzzy_some:
  "fuzzy_match_customer target cands = Some m \<Longrightarrow>
   m \<in> set cands \<and> name_match (py_strip (py_lower target)) (py_strip (py_lower m))"
  by (induction cands) (auto split: if_splits)

lemma filter_price_rows_empty:
  "filter_price_rows L ci m rows = Inr [] \<Longrightarrow>
   \<forall>r\<in>set rows. ci < length r \<and> \<not> name_match m (py_lower (py_strip (py_str L (r ! ci))))"
  by (induction rows) (auto simp: cell_at_def split: if_splits sum.splits)

text \<open>The status for a customer without rows is given only after a match.\<close>

lemma no_rows_under_customer:
  assumes "select_price_from_rows L rows headers customer_name all_customer_names cp
             date_begin_str today
           = Inr (x, ''No PO's under '' @ customer_name @ '' found'', po)"
  shows "customer_name \<noteq> [] \<and> x = CFloat cp \<and> po = CStr []
       \<and> (\<exists>m ci. fuzzy_match_customer customer_name all_customer_names = Some m
              \<and> m \<noteq> [] \<and> index_of ''Customer_Name'' headers = Some ci
              \<and> filter_price_rows L ci m rows = Inr [])"
proof -
  let ?st = "''No PO's under '' @ customer_name @ '' found''"
  obtain ci pidx di where cols: "index_of ''Customer_Name'' headers = Some ci"
    "index_of ''Unit_Price'' headers = Some pidx"
    "index_of ''Require_Ship_Date'' headers = Some di"
    using assms by (auto simp: select_price_from_rows_def split: option.splits)
  define matched where "matched =
    (if customer_name \<noteq> [] then fuzzy_match_customer customer_name all_customer_names
     else None)"
  have w: "select_price_with L rows ci pidx di (index_of ''PO_No'' headers) customer_name
             matched cp (parse_threshold L date_begin_str) today = Inr (x, ?st, po)"
    using assms cols by (simp add: select_price_from_rows_def matched_def)
  obtain filtered where f: "customer_rows L ci matched rows = Inr filtered"
    using w by (auto simp: select_price_with_def split: sum.splits)
  have sr: "selected_result pidx po_idx cp picked \<noteq> Inr (x, ?st, po)" for po_idx picked
    by (auto simp: selected_result_def split: prod.splits option.splits sum.splits)
  have e: "filtered = [] \<and> matched_truthy matched \<and> x = CFloat cp \<and> po = CStr []"
    using w f sr by (auto simp: select_price_with_def split: if_splits sum.splits)
  then obtain m where m: "matched = Some m" "m \<noteq> []"
    by (auto simp: matched_truthy_def split: option.splits)
  then have cn: "customer_name \<noteq> []"
    and fm: "fuzzy_match_customer customer_name all_customer_names = Some m"
    by (auto simp: matched_def split: if_splits)
  have "filter_price_rows L ci m rows = Inr []"
    using f e m by (simp add: customer_rows_def)
  then show ?thesis using cn fm m(2) cols(1) e by blast
qed

text \<open>
  Claim C2, amended. When the customer name is not empty and no known name matches it
  (one string containing the other, case-insensitively, with lengths differing by at
  most 2), the rows are not filtered by customer: the result is the one for the same
  rows with no customer name, and its status is never
  \<open>No PO's under <customer> found\<close>. That status is returned only when a known name
  matched and no row's customer name passes the same test against the matched name;
  the chart price is then returned.
\<close>

theorem unmatched_customer_unfiltered:
  "(customer_name \<noteq> []
      \<and> (\<forall>c\<in>set all_customer_names.
            \<not> name_match (py_strip (py_lower customer_name)) (py_strip (py_lower c)))
    \<longrightarrow> select_price_from_rows L rows headers customer_name all_customer_names cp
          date_begin_str today
        = select_price_from_rows L rows headers [] all_customer_names cp date_begin_str today
      \<and> (\<forall>x status po.
            select_price_from_rows L rows headers customer_name all_customer_names cp
              date_begin_str today = Inr (x, status, po)
            \<longrightarrow> status \<noteq> ''No PO's under '' @ customer_name @ '' found''))
   \<and> (\<forall>x po.
         select_price_from_rows L rows headers customer_name all_customer_names cp
           date_begin_str today
         = Inr (x, ''No PO's under '' @ customer_name @ '' found'', po)
       \<longrightarrow> customer_name \<noteq> [] \<and> x = CFloat cp \<and> po = CStr []
         \<and> (\<exists>m\<in>set all_customer_names. \<exists>ci.
                fuzzy_match_customer customer_name all_customer_names = Some m
              \<and> name_match (py_strip (py_lower customer_name)) (py_strip (py_lower m))
              \<and> index_of ''Customer_Name'' headers = Some ci
              \<and> (\<forall>r\<in>set rows. ci < length r
                    \<and> \<not> name_match m (py_lower (py_strip (py_str L (r ! ci)))))))"
proof -
  have matched: "customer_name \<noteq> [] \<and> x = CFloat cp \<and> po = CStr []
         \<and> (\<exists>m\<in>set all_customer_names. \<exists>ci.
                fuzzy_match_customer customer_name all_customer_names = Some m
              \<and> name_match (py_strip (py_lower customer_name)) (py_strip (py_lower m))
              \<and> index_of ''Customer_Name'' headers = Some ci
              \<and> (\<forall>r\<in>set rows. ci < length r
                    \<and> \<not> name_match m (py_lower (py_strip (py_str L (r ! ci))))))"
    if "select_price_from_rows L rows headers customer_name all_customer_names cp
           date_begin_str today
         = Inr (x, ''No PO's under '' @ customer_name @ '' found'', po)" for x po
  proof -
    from no_rows_under_customer[OF that] obtain m ci where
      h: "customer_name \<noteq> []" "x = CFloat cp" "po = CStr []"
        "fuzzy_match_customer customer_name all_customer_names = Some m"
        "index_of ''Customer_Name'' headers = Some ci"
        "filter_price_rows L ci m rows = Inr []" by blast
    show ?thesis using h(1,2,3,4,5) fuzzy_some[OF h(4)] filter_price_rows_empty[OF h(6)]
      by blast
  qed
  have unmatched: "select_price_from_rows L rows headers customer_name all_customer_names cp
          date_begin_str today
        = select_price_from_rows L rows headers [] all_customer_names cp date_begin_str today
      \<and> (\<forall>x status po.
            select_price_from_rows L rows headers customer_name all_customer_names cp
              date_begin_str today = Inr (x, status, po)
            \<longrightarrow> status \<noteq> ''No PO's under '' @ customer_name @ '' found'')"
    if ne: "customer_name \<noteq> []"
      and nm: "\<forall>c\<in>set all_customer_names.
            \<not> name_match (py_strip (py_lower customer_name)) (py_strip (py_lower c))"
  proof -
    have none: "fuzzy_match_customer customer_name all_customer_names = None"
      using nm by (simp add: fuzzy_none)
    have same: "select_price_from_rows L rows headers customer_name all_customer_names cp
           date_begin_str today
         = select_price_from_rows L rows headers [] all_customer_names cp date_begin_str today"
      by (rule select_price_unmatched[OF none])
    have "status \<noteq> ''No PO's under '' @ customer_name @ '' found''"
      if "select_price_from_rows L rows headers customer_name all_customer_names cp
            date_begin_str today = Inr (x, status, po)" for x status po
      using no_rows_under_customer[of L rows headers customer_name all_customer_names cp
          date_begin_str today x po] that none by auto
    then show ?thesis using same by blast
  qed
  show ?thesis using matched unmatched by blast
qed

theorem unmatched_customer_unfiltered_witness:
  "list_all (\<lambda>c. \<not> name_match (py_strip (py_lower ''Globex'')) (py_strip (py_lower c)))
         [''acme'']
   \<and> select_price_from_rows demo_lib [po_jan_near] po_headers ''Globex'' [''acme''] (Fin 10)
         ''2024-01-01T00:00:00Z'' demo_today
       = select_price_from_rows demo_lib [po_jan_near] po_headers [] [''acme''] (Fin 10)
           ''2024-01-01T00:00:00Z'' demo_today
   \<and> fuzzy_match_customer ''Acme'' [''acme''] = Some ''acme''
   \<and> name_match ''acme'' (py_lower (py_strip (py_str demo_lib (po_jan_near ! 0))))
   \<and> \<not> name_match ''acme'' (py_lower (py_strip (py_str demo_lib (po_globex ! 0))))
   \<and> select_price_from_rows demo_lib [po_globex] po_headers ''Acme'' [''acme''] (Fin 10)
         ''2024-01-01T00:00:00Z'' demo_today
       = Inr (CFloat (Fin 10), ''No PO's under Acme found'', CStr [])
   \<and> select_price_from_rows demo_lib [po_globex, po_jan_near] po_headers ''Acme'' [''acme'']
         (Fin 10) ''2024-01-01T00:00:00Z'' demo_today
       = Inr (CInt 11, ''Success'', CStr ''PO-2'')"
proof -
  have unmatched: "list_all (\<lambda>c. \<not> name_match (py_strip (py_lower ''Globex''))
      (py_strip (py_lower c))) [''acme'']"
    by (simp add: price_defs)
  have same: "select_price_from_rows demo_lib [po_jan_near] po_headers ''Globex'' [''acme'']
         (Fin 10) ''2024-01-01T00:00:00Z'' demo_today
       = select_price_from_rows demo_lib [po_jan_near] po_headers [] [''acme''] (Fin 10)
           ''2024-01-01T00:00:00Z'' demo_today"
    using unmatched_customer_unfiltered[of "''Globex''" "[''acme'']" demo_lib "[po_jan_near]"
      po_headers "Fin 10" "''2024-01-01T00:00:00Z''" demo_today] unmatched
    by simp
  have matched: "fuzzy_match_customer ''Acme'' [''acme''] = Some ''acme''
     \<and> name_match ''acme'' (py_lower (py_strip (py_str demo_lib (po_jan_near ! 0))))
     \<and> \<not> name_match ''acme'' (py_lower (py_strip (py_str demo_lib (po_globex ! 0))))"
    by (simp add: price_defs)
  have none: "select_price_from_rows demo_lib [po_globex] po_headers ''Acme'' [''acme'']
         (Fin 10) ''2024-01-01T00:00:00Z'' demo_today
       = Inr (CFloat (Fin 10), ''No PO's under Acme found'', CStr [])"
    by (simp add: price_defs)
  have some: "select_price_from_rows demo_lib [po_globex, po_jan_near] po_headers ''Acme''
         [''acme''] (Fin 10) ''2024-01-01T00:00:00Z'' demo_today
       = Inr (CInt 11, ''Success'', CStr ''PO-2'')"
    by (simp add: price_defs)
  show ?thesis using unmatched same matched none some by simp
qed


section \<open>Price columns and price blocks\<close>

lemma first_col_bound: "first_col P hl s = Some j \<Longrightarrow> s \<le> j \<and> j < length hl"
  by (simp add: first_col_def find_upt_Some)

lemma first_priority_bound: "first_priority M ps hl s = Some j \<Longrightarrow> s \<le> j \<and> j < length hl"
  by (induction ps) (auto split: option.splits dest: first_col_bound)

lemma default_column_bound: "default_column hl s = Some j \<Longrightarrow> s \<le> j \<and> j < length hl"
  by (auto simp: default_column_def split: option.splits dest: first_priority_bound)

lemma select_price_column_bound:
  "select_price_column hv pc cn = Some j \<Longrightarrow> pc < j \<and> j < length hv"
  by (auto simp: select_price_column_def Let_def mapped_column_def
      split: option.splits if_splits dest!: default_column_bound first_col_bound)

lemma block_price_qualifies:
  assumes "part_col b < length r" and "length (header_values b) \<le> length r"
  shows "block_price L r k today cn b = Inr (Some (d, pn, pv)) \<longleftrightarrow>
     block_date b = Some d \<and> d \<le> today \<and> header_row b < k
     \<and> (\<exists>pc. select_price_column (header_values b) (part_col b) cn = Some pc
          \<and> str_int L (py_strip (r ! part_col b)) = Some pn
          \<and> str_float L (py_strip (replace_char (CHR '','') []
                 (replace_char (CHR ''$'') [] (r ! pc)))) = Some pv)"
proof -
  have pc: "select_price_column (header_values b) (part_col b) cn = Some pc \<Longrightarrow> pc < length r"
    for pc using select_price_column_bound[of "header_values b" "part_col b" cn pc] assms(2)
    by simp
  show ?thesis using assms(1) pc
    by (auto simp: block_price_def bind_err_def series_at_def split: option.splits)
qed

lemma block_price_total:
  assumes "part_col b < length r" and "length (header_values b) \<le> length r"
  shows "\<exists>res. block_price L r k today cn b = Inr res"
proof -
  have pc: "select_price_column (header_values b) (part_col b) cn = Some pc \<Longrightarrow> pc < length r"
    for pc using select_price_column_bound[of "header_values b" "part_col b" cn pc] assms(2)
    by simp
  show ?thesis using assms(1) pc
    by (auto simp: block_price_def bind_err_def series_at_def split: option.splits)
qed

lemma find_loop_first_latest:
  assumes "\<forall>b\<in>set blocks. \<exists>res. block_price L r k today cn b = Inr res"
  shows "(find_loop L r k today cn blocks latest = Inr latest
          \<and> (\<forall>b\<in>set blocks. \<forall>d pn pv. block_price L r k today cn b = Inr (Some (d, pn, pv))
                \<longrightarrow> (\<exists>dl pnl pvl. latest = Some (dl, pnl, pvl) \<and> d \<le> dl)))
       \<or> (\<exists>as b bs d pn pv. blocks = as @ b # bs
            \<and> block_price L r k today cn b = Inr (Some (d, pn, pv))
            \<and> find_loop L r k today cn blocks latest = Inr (Some (d, pn, pv))
            \<and> (\<forall>dl pnl pvl. latest = Some (dl, pnl, pvl) \<longrightarrow> dl < d)
            \<and> (\<forall>a\<in>set as. \<forall>d' pn' pv'. block_price L r k today cn a = Inr (Some (d', pn', pv'))
                  \<longrightarrow> d' < d)
            \<and> (\<forall>c\<in>set bs. \<forall>d' pn' pv'. block_price L r k today cn c = Inr (Some (d', pn', pv'))
                  \<longrightarrow> d' \<le> d))"
  using assms
proof (induction blocks arbitrary: latest)
  case Nil
  then show ?case by simp
next
  case (Cons b0 rest)
  let ?Q = "\<lambda>b d pn pv. block_price L r k today cn b = Inr (Some (d, pn, pv))"
  from Cons.prems obtain res0 where r0: "block_price L r k today cn b0 = Inr res0" by auto
  have restok: "\<forall>b\<in>set rest. \<exists>res. block_price L r k today cn b = Inr res"
    using Cons.prems by simp
  show ?case
  proof (cases res0)
    case None
    have step: "find_loop L r k today cn (b0 # rest) latest = find_loop L r k today cn rest latest"
      using r0 None by simp
    from Cons.IH[OF restok, of latest] show ?thesis
    proof
      assume "find_loop L r k today cn rest latest = Inr latest \<and>
        (\<forall>b\<in>set rest. \<forall>d pn pv. ?Q b d pn pv \<longrightarrow> (\<exists>dl pnl pvl. latest = Some (dl, pnl, pvl) \<and> d \<le> dl))"
      then show ?thesis using step r0 None by auto
    next
      assume "\<exists>as b bs d pn pv. rest = as @ b # bs \<and> ?Q b d pn pv
        \<and> find_loop L r k today cn rest latest = Inr (Some (d, pn, pv))
        \<and> (\<forall>dl pnl pvl. latest = Some (dl, pnl, pvl) \<longrightarrow> dl < d)
        \<and> (\<forall>a\<in>set as. \<forall>d' pn' pv'. ?Q a d' pn' pv' \<longrightarrow> d' < d)
        \<and> (\<forall>c\<in>set bs. \<forall>d' pn' pv'. ?Q c d' pn' pv' \<longrightarrow> d' \<le> d)"
      then obtain as b bs d pn pv where h: "rest = as @ b # bs" "?Q b d pn pv"
        "find_loop L r k today cn rest latest = Inr (Some (d, pn, pv))"
        "\<forall>dl pnl pvl. latest = Some (dl, pnl, pvl) \<longrightarrow> dl < d"
        "\<forall>a\<in>set as. \<forall>d' pn' pv'. ?Q a d' pn' pv' \<longrightarrow> d' < d"
        "\<forall>c\<in>set bs. \<forall>d' pn' pv'. ?Q c d' pn' pv' \<longrightarrow> d' \<le> d" by blast
      have e: "b0 # rest = (b0 # as) @ b # bs" using h(1) by simp
      have a': "\<forall>a\<in>set (b0 # as). \<forall>d' pn' pv'. ?Q a d' pn' pv' \<longrightarrow> d' < d"
        using h(5) r0 None by auto
      show ?thesis
        apply (rule disjI2)
        apply (rule exI[of _ "b0 # as"], rule exI[of _ b], rule exI[of _ bs])
        apply (rule exI[of _ d], rule exI[of _ pn], rule exI[of _ pv])
        using e a' h(2,4,6) step h(3) by simp
    qed
  next
    case (Some t0)
    obtain d0 pn0 pv0 where t0: "t0 = (d0, pn0, pv0)" by (cases t0) auto
    have q0: "?Q b0 d0 pn0 pv0" using r0 Some t0 by simp
    define latest' where "latest' = (case latest of
               None \<Rightarrow> Some (d0, pn0, pv0)
             | Some (latest_date, latest_part_number, latest_price) \<Rightarrow>
                 if d0 > latest_date then Some (d0, pn0, pv0) else latest)"
    have step: "find_loop L r k today cn (b0 # rest) latest = find_loop L r k today cn rest latest'"
      using r0 Some t0 by (simp add: latest'_def)
    show ?thesis
    proof (cases "\<forall>dl pnl pvl. latest = Some (dl, pnl, pvl) \<longrightarrow> dl < d0")
      case True
      then have l': "latest' = Some (d0, pn0, pv0)"
        by (auto simp: latest'_def split: option.splits)
      from Cons.IH[OF restok, of latest'] show ?thesis
      proof
        assume "find_loop L r k today cn rest latest' = Inr latest' \<and>
          (\<forall>b\<in>set rest. \<forall>d pn pv. ?Q b d pn pv \<longrightarrow> (\<exists>dl pnl pvl. latest' = Some (dl, pnl, pvl) \<and> d \<le> dl))"
        then have f: "find_loop L r k today cn rest latest' = Inr (Some (d0, pn0, pv0))"
          and le: "\<forall>c\<in>set rest. \<forall>d' pn' pv'. ?Q c d' pn' pv' \<longrightarrow> d' \<le> d0"
          unfolding l' by auto
        have e: "b0 # rest = [] @ b0 # rest" by simp
        show ?thesis
          apply (rule disjI2)
          apply (rule exI[of _ "[]"], rule exI[of _ b0], rule exI[of _ rest])
          apply (rule exI[of _ d0], rule exI[of _ pn0], rule exI[of _ pv0])
          using q0 f le True step by simp
      next
        assume "\<exists>as b bs d pn pv. rest = as @ b # bs \<and> ?Q b d pn pv
          \<and> find_loop L r k today cn rest latest' = Inr (Some (d, pn, pv))
          \<and> (\<forall>dl pnl pvl. latest' = Some (dl, pnl, pvl) \<longrightarrow> dl < d)
          \<and> (\<forall>a\<in>set as. \<forall>d' pn' pv'. ?Q a d' pn' pv' \<longrightarrow> d' < d)
          \<and> (\<forall>c\<in>set bs. \<forall>d' pn' pv'. ?Q c d' pn' pv' \<longrightarrow> d' \<le> d)"
        then obtain as b bs d pn pv where h: "rest = as @ b # bs" "?Q b d pn pv"
          "find_loop L r k today cn rest latest' = Inr (Some (d, pn, pv))"
          "\<forall>dl pnl pvl. latest' = Some (dl, pnl, pvl) \<longrightarrow> dl < d"
          "\<forall>a\<in>set as. \<forall>d' pn' pv'. ?Q a d' pn' pv' \<longrightarrow> d' < d"
          "\<forall>c\<in>set bs. \<forall>d' pn' pv'. ?Q c d' pn' pv' \<longrightarrow> d' \<le> d" by blast
        have lt: "d0 < d" using h(4) l' by simp
        have e: "b0 # rest = (b0 # as) @ b # bs" using h(1) by simp
        have a': "\<forall>a\<in>set (b0 # as). \<forall>d' pn' pv'. ?Q a d' pn' pv' \<longrightarrow> d' < d"
          using h(5) q0 lt by auto
        have bt: "\<forall>dl pnl pvl. latest = Some (dl, pnl, pvl) \<longrightarrow> dl < d"
          using True lt by (auto intro: less_trans)
        show ?thesis
          apply (rule disjI2)
          apply (rule exI[of _ "b0 # as"], rule exI[of _ b], rule exI[of _ bs])
          apply (rule exI[of _ d], rule exI[of _ pn], rule exI[of _ pv])
          using e a' h(2,6) bt step h(3) by simp
      qed
    next
      case False
      then obtain dl pnl pvl where l: "latest = Some (dl, pnl, pvl)" and nl: "d0 \<le> dl"
        by (auto simp: not_less)
      have l': "latest' = latest" using l nl by (auto simp: latest'_def dest: leD)
      from Cons.IH[OF restok, of latest] show ?thesis
      proof
        assume "find_loop L r k today cn rest latest = Inr latest \<and>
          (\<forall>b\<in>set rest. \<forall>d pn pv. ?Q b d pn pv \<longrightarrow> (\<exists>dl pnl pvl. latest = Some (dl, pnl, pvl) \<and> d \<le> dl))"
        then show ?thesis using step l' q0 l nl by auto
      next
        assume "\<exists>as b bs d pn pv. rest = as @ b # bs \<and> ?Q b d pn pv
          \<and> find_loop L r k today cn rest latest = Inr (Some (d, pn, pv))
          \<and> (\<forall>dl pnl pvl. latest = Some (dl, pnl, pvl) \<longrightarrow> dl < d)
          \<and> (\<forall>a\<in>set as. \<forall>d' pn' pv'. ?Q a d' pn' pv' \<longrightarrow> d' < d)
          \<and> (\<forall>c\<in>set bs. \<forall>d' pn' pv'. ?Q c d' pn' pv' \<longrightarrow> d' \<le> d)"
        then obtain as b bs d pn pv where h: "rest = as @ b # bs" "?Q b d pn pv"
          "find_loop L r k today cn rest latest = Inr (Some (d, pn, pv))"
          "\<forall>dl pnl pvl. latest = Some (dl, pnl, pvl) \<longrightarrow> dl < d"
          "\<forall>a\<in>set as. \<forall>d' pn' pv'. ?Q a d' pn' pv' \<longrightarrow> d' < d"
          "\<forall>c\<in>set bs. \<forall>d' pn' pv'. ?Q c d' pn' pv' \<longrightarrow> d' \<le> d" by blast
        have lt: "d0 < d" using h(4) l nl by auto
        have e: "b0 # rest = (b0 # as) @ b # bs" using h(1) by simp
        have a': "\<forall>a\<in>set (b0 # as). \<forall>d' pn' pv'. ?Q a d' pn' pv' \<longrightarrow> d' < d"
          using h(5) q0 lt by auto
        show ?thesis
          apply (rule disjI2)
          apply (rule exI[of _ "b0 # as"], rule exI[of _ b], rule exI[of _ bs])
          apply (rule exI[of _ d], rule exI[of _ pn], rule exI[of _ pv])
          using e a' h(2,4,6) step l' h(3) by simp
      qed
    qed
  qed
qed

text \<open>
  Claim C4. A block qualifies for a data row when it has a date on or before \<open>today\<close>,
  its header row is above the data row, a price column is found, and the part number
  and price cells parse. \<open>_find_most_recent_price\<close> returns nothing when no block
  qualifies; otherwise it returns the part number, price and date of a qualifying block
  \<open>b\<close> whose date is later than that of every qualifying block before it and not
  earlier than that of every qualifying block after it: the latest date, and among
  equal dates the block found first.
\<close>

theorem latest_block_preferred:
  assumes wf: "\<forall>b\<in>set blocks. part_col b < length r \<and> length (header_values b) \<le> length r"
  shows "(\<forall>b\<in>set blocks. \<forall>d pn pv.
            block_price L r k today cn b = Inr (Some (d, pn, pv)) \<longleftrightarrow>
              block_date b = Some d \<and> d \<le> today \<and> header_row b < k
              \<and> (\<exists>pc. select_price_column (header_values b) (part_col b) cn = Some pc
                   \<and> str_int L (py_strip (r ! part_col b)) = Some pn
                   \<and> str_float L (py_strip (replace_char (CHR '','') []
                          (replace_char (CHR ''$'') [] (r ! pc)))) = Some pv))
       \<and> (((\<forall>b\<in>set blocks. \<forall>d pn pv. block_price L r k today cn b \<noteq> Inr (Some (d, pn, pv)))
            \<and> find_most_recent_price L r k blocks today cn = Inr None)
          \<or> (\<exists>as b bs d pn pv. blocks = as @ b # bs
               \<and> block_price L r k today cn b = Inr (Some (d, pn, pv))
               \<and> find_most_recent_price L r k blocks today cn = Inr (Some (pn, pv, d))
               \<and> (\<forall>a\<in>set as. \<forall>d' pn' pv'.
                     block_price L r k today cn a = Inr (Some (d', pn', pv')) \<longrightarrow> d' < d)
               \<and> (\<forall>c\<in>set bs. \<forall>d' pn' pv'.
                     block_price L r k today cn c = Inr (Some (d', pn', pv')) \<longrightarrow> d' \<le> d)))"
proof -
  have total: "\<forall>b\<in>set blocks. \<exists>res. block_price L r k today cn b = Inr res"
    using wf block_price_total by blast
  have qual: "\<forall>b\<in>set blocks. \<forall>d pn pv.
            block_price L r k today cn b = Inr (Some (d, pn, pv)) \<longleftrightarrow>
              block_date b = Some d \<and> d \<le> today \<and> header_row b < k
              \<and> (\<exists>pc. select_price_column (header_values b) (part_col b) cn = Some pc
                   \<and> str_int L (py_strip (r ! part_col b)) = Some pn
                   \<and> str_float L (py_strip (replace_char (CHR '','') []
                          (replace_char (CHR ''$'') [] (r ! pc)))) = Some pv)"
    using wf block_price_qualifies by blast
  from find_loop_first_latest[OF total, of None]
  have "((\<forall>b\<in>set blocks. \<forall>d pn pv. block_price L r k today cn b \<noteq> Inr (Some (d, pn, pv)))
            \<and> find_most_recent_price L r k blocks today cn = Inr None)
          \<or> (\<exists>as b bs d pn pv. blocks = as @ b # bs
               \<and> block_price L r k today cn b = Inr (Some (d, pn, pv))
               \<and> find_most_recent_price L r k blocks today cn = Inr (Some (pn, pv, d))
               \<and> (\<forall>a\<in>set as. \<forall>d' pn' pv'.
                     block_price L r k today cn a = Inr (Some (d', pn', pv')) \<longrightarrow> d' < d)
               \<and> (\<forall>c\<in>set bs. \<forall>d' pn' pv'.
                     block_price L r k today cn c = Inr (Some (d', pn', pv')) \<longrightarrow> d' \<le> d))"
  proof
    assume a: "find_loop L r k today cn blocks None = Inr None
          \<and> (\<forall>b\<in>set blocks. \<forall>d pn pv. block_price L r k today cn b = Inr (Some (d, pn, pv))
                \<longrightarrow> (\<exists>dl pnl pvl. None = Some (dl, pnl, pvl) \<and> d \<le> dl))"
    then have "find_most_recent_price L r k blocks today cn = Inr None"
      by (simp add: find_most_recent_price_def)
    moreover have "\<forall>b\<in>set blocks. \<forall>d pn pv. block_price L r k today cn b \<noteq> Inr (Some (d, pn, pv))"
      using a by blast
    ultimately show ?thesis by blast
  next
    assume "\<exists>as b bs d pn pv. blocks = as @ b # bs
            \<and> block_price L r k today cn b = Inr (Some (d, pn, pv))
            \<and> find_loop L r k today cn blocks None = Inr (Some (d, pn, pv))
            \<and> (\<forall>dl pnl pvl. None = Some (dl, pnl, pvl) \<longrightarrow> dl < d)
            \<and> (\<forall>a\<in>set as. \<forall>d' pn' pv'. block_price L r k today cn a = Inr (Some (d', pn', pv'))
                  \<longrightarrow> d' < d)
            \<and> (\<forall>c\<in>set bs. \<forall>d' pn' pv'. block_price L r k today cn c = Inr (Some (d', pn', pv'))
                  \<longrightarrow> d' \<le> d)"
    then obtain as b bs d pn pv where h: "blocks = as @ b # bs"
      "block_price L r k today cn b = Inr (Some (d, pn, pv))"
      "find_loop L r k today cn blocks None = Inr (Some (d, pn, pv))"
      "\<forall>a\<in>set as. \<forall>d' pn' pv'. block_price L r k today cn a = Inr (Some (d', pn', pv'))
                  \<longrightarrow> d' < d"
      "\<forall>c\<in>set bs. \<forall>d' pn' pv'. block_price L r k today cn c = Inr (Some (d', pn', pv'))
                  \<longrightarrow> d' \<le> d" by blast
    have "find_most_recent_price L r k blocks today cn = Inr (Some (pn, pv, d))"
      using h(3) by (simp add: find_most_recent_price_def)
    then show ?thesis using h(1,2,4,5) by blast
  qed
  then show ?thesis using qual by blast
qed

lemmas reader_defs =
  find_most_recent_price_def block_price_def bind_err_def series_at_def
  select_price_column_def mapped_column_def default_column_def first_col_def
  map_customer_to_header_def CUSTOM_PRICE_COLUMN_MAP_def PRICE_COLUMN_PRIORITIES_def
  find_price_column_def customer_args_def meta_cell_def row_parts_def
  py_lower_def py_strip_def lower_char_def is_space_def replace_char_def
  block_jan_def block_may_def two_block_row_def lear_block_def lear_cols_def lear_row_def
  lear_adient_row_def demo_lib_def decimal_nat_def digit_val_def Let_def

theorem latest_block_preferred_witness:
  "list_all (\<lambda>b. part_col b < length two_block_row
                 \<and> length (header_values b) \<le> length two_block_row) [block_jan, block_may]
   \<and> block_price demo_lib two_block_row 2 (2024, 6, 15) None block_jan
       = Inr (Some ((2024, 1, 1), 12345, Fin 1000))
   \<and> block_price demo_lib two_block_row 2 (2024, 6, 15) None block_may
       = Inr (Some ((2024, 5, 1), 12345, Fin 1250))
   \<and> find_most_recent_price demo_lib two_block_row 2 [block_jan, block_may] (2024, 6, 15) None
       = Inr (Some (12345, Fin 1250, (2024, 5, 1)))"
  using latest_block_preferred[of "[block_jan, block_may]" two_block_row demo_lib 2
      "(2024, 6, 15)" None]
  by (simp add: reader_defs)

lemma later_block_wins_in_either_order:
  "find_most_recent_price demo_lib two_block_row 2 [block_may, block_jan] (2024, 6, 15) None
     = Inr (Some (12345, Fin 1250, (2024, 5, 1)))"
  by (simp add: reader_defs)


lemma map_customer_loop_label:
  "map_customer_loop cl items = Some label \<Longrightarrow> label \<in> snd ` set items"
  by (induction cl items rule: map_customer_loop.induct) (auto split: if_splits)

lemma map_customer_label_nonempty:
  assumes "map_customer_to_header n = Some label"
  shows "label \<noteq> []"
proof -
  have "label \<in> snd ` set CUSTOM_PRICE_COLUMN_MAP"
    using assms map_customer_loop_label unfolding map_customer_to_header_def by fast
  then show ?thesis by (auto simp: CUSTOM_PRICE_COLUMN_MAP_def)
qed

lemma map_customer_loop_None:
  "map_customer_loop cl items = None \<longleftrightarrow> (\<forall>(key, label)\<in>set items. \<not> py_in (py_lower key) cl)"
  by (induction cl items rule: map_customer_loop.induct) auto

lemma customer_args_single:
  "CHR '','' \<notin> set text \<Longrightarrow> customer_args text = [(text, None)]"
  by (simp add: customer_args_def)

lemma customer_args_several:
  "CHR '','' \<in> set text \<Longrightarrow> (n, a) \<in> set (customer_args text) \<Longrightarrow> a = Some n \<and> n \<noteq> []"
  by (auto simp: customer_args_def)

lemma select_price_column_None:
  "select_price_column hv pc None = find_price_column hv pc"
  by (simp add: select_price_column_def mapped_column_def find_price_column_def Let_def)

lemma select_price_column_unmapped:
  "map_customer_to_header n = None \<Longrightarrow>
   select_price_column hv pc (Some n) = find_price_column hv pc"
  by (simp add: select_price_column_def mapped_column_def find_price_column_def Let_def)

lemma select_price_column_mapped:
  assumes "n \<noteq> []" and "map_customer_to_header n = Some label"
  shows "select_price_column hv pc (Some n) =
     (case first_col (py_in (py_lower label)) (map py_lower hv) (pc + 1) of
        Some j \<Rightarrow> Some j
      | None \<Rightarrow> find_price_column hv pc)"
  using assms map_customer_label_nonempty[OF assms(2)]
  by (simp add: select_price_column_def mapped_column_def find_price_column_def Let_def
      split: option.splits)

text \<open>
  Claim C3, as stated, fails on a row with one customer: \<open>Lear\<close> matches the key
  \<open>lear\<close> and the block has a \<open>Factory Zero Price\<close> column (price 20), yet the row is
  read without a customer name and its price comes from the \<open>DDP Price\<close> column (10).
\<close>

theorem single_customer_counterexample:
  "map_customer_to_header ''Lear'' = Some ''factory zero''
   \<and> select_price_column (header_values lear_block) 0 (Some ''Lear'') = Some 2
   \<and> customer_args ''Lear'' = [(''Lear'', None)]
   \<and> row_parts demo_lib lear_cols [lear_block] (2024, 6, 15) 1 lear_row
       = Inr [\<lparr>part_number = 12345, price = Fin 10, program = [], pcn = ''95506'',
               customer = ''Lear'', oem_plant = [], description = [],
               part_date = Some (2024, 5, 1)\<rparr>]"
  by (simp add: reader_defs)

text \<open>
  Claim C3, amended. The customer-to-label mapping is applied only to the customers of
  a row that lists several, separated by commas: for each of them, if the name contains
  a key of the mapping (case-insensitively) and a column right of the part column
  contains the mapped label, the first such column is selected, and otherwise the
  default price column. The only customer of a row without a comma is passed on as
  no customer, and the default price column is selected for it.
\<close>

theorem price_column_selection:
  "\<forall>(n, a)\<in>set (customer_args text).
      (CHR '','' \<notin> set text \<longrightarrow>
         a = None \<and> select_price_column hv pc a = find_price_column hv pc)
    \<and> (CHR '','' \<in> set text \<longrightarrow>
         a = Some n \<and> n \<noteq> []
       \<and> (case map_customer_to_header n of
            None \<Rightarrow>
              (\<forall>(key, label)\<in>set CUSTOM_PRICE_COLUMN_MAP. \<not> py_in (py_lower key) (py_lower n))
              \<and> select_price_column hv pc a = find_price_column hv pc
          | Some label \<Rightarrow>
              (\<exists>key. (key, label) \<in> set CUSTOM_PRICE_COLUMN_MAP)
              \<and> (if \<exists>j. pc < j \<and> j < length hv \<and> py_in (py_lower label) (py_lower (hv ! j))
                  then \<exists>j. select_price_column hv pc a = Some j
                         \<and> pc < j \<and> j < length hv
                         \<and> py_in (py_lower label) (py_lower (hv ! j))
                         \<and> (\<forall>i. pc < i \<and> i < j \<longrightarrow> \<not> py_in (py_lower label) (py_lower (hv ! i)))
                  else select_price_column hv pc a = find_price_column hv pc)))"
proof (cases "CHR '','' \<in> set text")
  case False
  then show ?thesis by (simp add: customer_args_single select_price_column_None)
next
  case True
  have "a = Some n \<and> n \<noteq> []
       \<and> (case map_customer_to_header n of
            None \<Rightarrow>
              (\<forall>(key, label)\<in>set CUSTOM_PRICE_COLUMN_MAP. \<not> py_in (py_lower key) (py_lower n))
              \<and> select_price_column hv pc a = find_price_column hv pc
          | Some label \<Rightarrow>
              (\<exists>key. (key, label) \<in> set CUSTOM_PRICE_COLUMN_MAP)
              \<and> (if \<exists>j. pc < j \<and> j < length hv \<and> py_in (py_lower label) (py_lower (hv ! j))
                  then \<exists>j. select_price_column hv pc a = Some j
                         \<and> pc < j \<and> j < length hv
                         \<and> py_in (py_lower label) (py_lower (hv ! j))
                         \<and> (\<forall>i. pc < i \<and> i < j \<longrightarrow> \<not> py_in (py_lower label) (py_lower (hv ! i)))
                  else select_price_column hv pc a = find_price_column hv pc))"
    if na: "(n, a) \<in> set (customer_args text)" for n a
  proof -
    from customer_args_several[OF True na] have a: "a = Some n" and n: "n \<noteq> []" by simp_all
    show ?thesis
    proof (cases "map_customer_to_header n")
      case None
      then have "\<forall>(key, label)\<in>set CUSTOM_PRICE_COLUMN_MAP. \<not> py_in (py_lower key) (py_lower n)"
        by (simp add: map_customer_to_header_def map_customer_loop_None)
      then show ?thesis using a n None by (simp add: select_price_column_unmapped)
    next
      case (Some label)
      have key: "\<exists>key. (key, label) \<in> set CUSTOM_PRICE_COLUMN_MAP"
        using map_customer_loop_label[of "py_lower n" CUSTOM_PRICE_COLUMN_MAP label] Some
        by (auto simp: map_customer_to_header_def)
      let ?P = "\<lambda>j. py_in (py_lower label) (map py_lower hv ! j)"
      have sel: "select_price_column hv pc (Some n) =
         (case find ?P [pc + 1 ..< length hv] of
            Some j \<Rightarrow> Some j | None \<Rightarrow> find_price_column hv pc)"
        using select_price_column_mapped[OF n Some, of hv pc] by (simp add: first_col_def)
      show ?thesis
      proof (cases "find ?P [pc + 1 ..< length hv]")
        case None
        then have ne: "\<not> (\<exists>j. pc < j \<and> j < length hv \<and> py_in (py_lower label) (py_lower (hv ! j)))"
          by (auto simp: find_upt_None)
        have "select_price_column hv pc a = find_price_column hv pc" using sel None a by simp
        then show ?thesis using a n Some key ne by auto
      next
        case (Some j)
        then have j: "pc < j" "j < length hv" "py_in (py_lower label) (py_lower (hv ! j))"
          "\<forall>i. pc < i \<and> i < j \<longrightarrow> \<not> py_in (py_lower label) (py_lower (hv ! i))"
          by (auto simp: find_upt_Some)
        have "select_price_column hv pc a = Some j" using sel Some a by simp
        then have "\<exists>j. select_price_column hv pc a = Some j
                         \<and> pc < j \<and> j < length hv
                         \<and> py_in (py_lower label) (py_lower (hv ! j))
                         \<and> (\<forall>i. pc < i \<and> i < j \<longrightarrow> \<not> py_in (py_lower label) (py_lower (hv ! i)))"
          using j by blast
        moreover have "\<exists>j. pc < j \<and> j < length hv \<and> py_in (py_lower label) (py_lower (hv ! j))"
          using j by blast
        ultimately show ?thesis using a n \<open>map_customer_to_header n = Some label\<close> key by simp
      qed
    qed
  qed
  then show ?thesis using True by blast
qed

theorem price_column_selection_witness:
  "customer_args ''Lear, Adient'' = [(''Lear'', Some ''Lear''), (''Adient'', Some ''Adient'')]
   \<and> select_price_column (header_values lear_block) 0 (Some ''Lear'') = Some 2
   \<and> select_price_column (header_values lear_block) 0 (Some ''Adient'') = Some 3
   \<and> find_price_column (header_values lear_block) 0 = Some 1
   \<and> map (\<lambda>p. (customer p, price p))
        (projr (row_parts demo_lib lear_cols [lear_block] (2024, 6, 15) 1 lear_adient_row))
       = [(''Lear'', Fin 20), (''Adient'', Fin 30)]"
  using price_column_selection[of "''Lear, Adient''" "header_values lear_block" 0]
  by (simp add: reader_defs)


section \<open>The effective month and the report\<close>

lemma nat_str_four:
  assumes "1000 \<le> n" and "n \<le> 9999"
  shows "nat_str n = [digit_char (n div 1000), digit_char (n div 100), digit_char (n div 10),
                      digit_char n]"
proof -
  have a: "\<not> n < 10" "\<not> n div 10 < 10" "\<not> n div 10 div 10 < 10" "n div 10 div 10 div 10 < 10"
    using assms by auto
  have d: "n div 10 div 10 = n div 100" "n div 100 div 10 = n div 1000"
    by (simp_all add: div_mult2_eq[symmetric])
  show ?thesis
    using nat_str_more[OF a(1)] nat_str_more[OF a(2)] nat_str_more[OF a(3)] nat_str_digit[OF a(4)]
    by (simp add: d)
qed

lemma pad2_two: "n < 100 \<Longrightarrow> pad2 n = [digit_char (n div 10), digit_char n]"
proof (cases "n < 10")
  case True
  then show ?thesis by (simp add: pad2_def digit_char_def)
next
  case False
  assume "n < 100"
  then have "n div 10 < 10" by auto
  then show ?thesis using False nat_str_more[OF False] nat_str_digit[of "n div 10"]
    by (simp add: pad2_def)
qed

lemma midnight_min: "midnight (y, m, dd) = datetime_min \<longleftrightarrow> (y, m, dd) = (1, 1, 1)"
  by (auto simp: midnight_def datetime_min_def)

lemma compute_parsed:
  assumes "timestamp_ok L (y, m, dd)" and "(y, m, dd) \<noteq> (1, 1, 1)"
  shows "compute_effective_month_start L today (Some (y, m, dd)) =
     (\<lparr>year = y, month = m, day = 1, hour = 0, minute = 0, second = 0, microsecond = 0\<rparr>,
      nat_str y @ ''-'' @ pad2 m @ ''-01T00:00:00Z'')"
proof -
  have "midnight (y, m, dd) \<noteq> datetime_min" using assms(2) by (simp only: midnight_min) simp
  then show ?thesis using assms(1)
    by (simp add: compute_effective_month_start_def format_iso_z_def format_ymd_def pad2_def
        digit_char_def midnight_def Let_def)
qed

text \<open>
  Claim C9. For a part whose date \<open>(y, m, dd)\<close> pandas turns into a Timestamp (the day at
  midnight, which is not \<open>datetime.min\<close>), the effective date is the first day of that
  month at midnight, formatted \<open>Y-MM-01T00:00:00Z\<close> with the year in decimal, which are
  the four digits \<open>YYYY\<close> for a year from 1000 to 9999; every date of the same month gives
  the same result. When the part key is known,
  \<open>_process_part\<close> looks the price up under the cache key made of the part key, the
  customer code, the PCN and that string: a hit is returned as it is, and otherwise the
  price data source is asked with that string as the date and the answer is stored under
  that key.
\<close>

theorem month_start_key:
  fixes y m dd :: nat and p :: excel_part and E :: env and L :: pylib
    and u pw :: string and k :: cell
  defines "begin_str \<equiv> nat_str y @ ''-'' @ pad2 m @ ''-01T00:00:00Z''"
    and "code \<equiv> py_lower (py_strip (customer p))"
  defines "answer \<equiv> query_price_api L (price_api E u pw k begin_str) begin_str (price p)
             (case customer_code_to_name E code of None \<Rightarrow> [] | Some n \<Rightarrow> n)
             (customer_names E) (now E)"
  assumes date: "part_date p = Some (y, m, dd)"
    and ok: "timestamp_ok L (y, m, dd)"
    and notmin: "(y, m, dd) \<noteq> (1, 1, 1)"
    and auth: "get_auth_for_pcn (decoded_auth E) (part_pcn p) = Inr (u, pw)"
    and retr: "retrieve_part_key L (part_key_api E u pw (int_str (part_number p)))
                 (int_str (part_number p)) code pkc = (k, s, pkc')"
    and key: "truthy k"
  shows "compute_effective_month_start L (now E) (part_date p)
         = (\<lparr>year = y, month = m, day = 1, hour = 0, minute = 0, second = 0,
              microsecond = 0\<rparr>, begin_str)
       \<and> (1000 \<le> y \<and> y \<le> 9999 \<and> m < 100
            \<longrightarrow> begin_str = [digit_char (y div 1000), digit_char (y div 100),
                             digit_char (y div 10), digit_char y, CHR ''-'',
                             digit_char (m div 10), digit_char m] @ ''-01T00:00:00Z'')
       \<and> (\<forall>dd'. timestamp_ok L (y, m, dd') \<and> (y, m, dd') \<noteq> (1, 1, 1)
            \<longrightarrow> compute_effective_month_start L (now E) (Some (y, m, dd'))
                = compute_effective_month_start L (now E) (Some (y, m, dd)))
       \<and> (case plc (k, code, part_pcn p, begin_str) of
            Some hit \<Rightarrow>
              (\<exists>res. process_part L E p pkc plc = (Some res, pkc', plc)
                 \<and> (res_plex_price res, res_status res, res_po_no res) = hit)
          | None \<Rightarrow>
              (\<exists>res. process_part L E p pkc plc
                     = (Some res, pkc', plc((k, code, part_pcn p, begin_str) \<mapsto> answer))
                 \<and> (res_plex_price res, res_status res, res_po_no res) = answer))"
proof -
  have c: "compute_effective_month_start L (now E) (part_date p)
         = (\<lparr>year = y, month = m, day = 1, hour = 0, minute = 0, second = 0,
              microsecond = 0\<rparr>, begin_str)"
    unfolding date begin_str_def by (rule compute_parsed[OF ok notmin])
  have same: "compute_effective_month_start L (now E) (Some (y, m, dd'))
                = compute_effective_month_start L (now E) (Some (y, m, dd))"
    if "timestamp_ok L (y, m, dd')" "(y, m, dd') \<noteq> (1, 1, 1)" for dd'
    using compute_parsed[OF that] compute_parsed[OF ok notmin] by simp
  have fmt: "begin_str = [digit_char (y div 1000), digit_char (y div 100),
                             digit_char (y div 10), digit_char y, CHR ''-'',
                             digit_char (m div 10), digit_char m] @ ''-01T00:00:00Z''"
    if "1000 \<le> y" "y \<le> 9999" "m < 100"
    using nat_str_four[OF that(1,2)] pad2_two[OF that(3)] by (simp add: begin_str_def)
  have sb: "shipper_begin_str L E p = begin_str" using c by (simp add: shipper_begin_str_def)
  have pp: "case plc (k, code, part_pcn p, begin_str) of
            Some hit \<Rightarrow>
              (\<exists>res. process_part L E p pkc plc = (Some res, pkc', plc)
                 \<and> (res_plex_price res, res_status res, res_po_no res) = hit)
          | None \<Rightarrow>
              (\<exists>res. process_part L E p pkc plc
                     = (Some res, pkc', plc((k, code, part_pcn p, begin_str) \<mapsto> answer))
                 \<and> (res_plex_price res, res_status res, res_po_no res) = answer)"
  proof (cases "plc (k, code, part_pcn p, begin_str)")
    case None
    obtain a b c where ans: "answer = (a, b, c)" by (cases answer) auto
    show ?thesis using None auth retr key sb ans
      by (simp add: process_part_def cached_price_def price_cache_key_def Let_def
          code_def[symmetric] answer_def[symmetric])
  next
    case (Some hit)
    obtain a b c where hit: "hit = (a, b, c)" by (cases hit) auto
    show ?thesis using Some hit auth retr key sb
      by (simp add: process_part_def cached_price_def price_cache_key_def Let_def
          code_def[symmetric])
  qed
  show ?thesis using c fmt same pp by blast
qed

lemmas main_defs =
  compute_effective_month_start_def shipper_begin_str_def price_cache_key_def
  format_iso_z_def format_ymd_def pad2_def nat_str_digit nat_str_more digit_char_def
  datetime_min_def int_str_def
  demo_lib_def midnight_def demo_part_def env_timeout_def env_nothing_def demo_today_def
  process_part_def get_auth_for_pcn_def part_pcn_def PCN_KEYS_def DEFAULT_PCN_def
  retrieve_part_key_def lookup_both_def build_cache_key_def cache_get_def truthy_def
  select_part_key_from_rows_def py_lower_def py_strip_def lower_char_def is_space_def
  delta_rounded_def py_float_def Let_def

theorem month_start_key_witness:
  "part_date demo_part = Some (2024, 5, 17) \<and> timestamp_ok demo_lib (2024, 5, 17)
   \<and> get_auth_for_pcn (decoded_auth env_found) (part_pcn demo_part) = Inr (''user'', ''secret'')
   \<and> retrieve_part_key demo_lib (part_key_api env_found ''user'' ''secret'' ''12345'')
        ''12345'' ''acme'' Map.empty = (CInt 1003, [], [''12345::acme'' \<mapsto> CInt 1003])
   \<and> truthy (CInt 1003)
   \<and> compute_effective_month_start demo_lib demo_today (Some (2024, 5, 17))
       = (midnight (2024, 5, 1), ''2024-05-01T00:00:00Z'')
   \<and> compute_effective_month_start demo_lib demo_today (Some (2024, 5, 3))
       = (midnight (2024, 5, 1), ''2024-05-01T00:00:00Z'')
   \<and> map_option (\<lambda>res. (res_plex_price res, res_status res, res_po_no res))
        (fst (process_part demo_lib env_found demo_part Map.empty Map.empty))
       = Some (CInt 10, ''Old Price from 2024-02-20'', CStr ''PO-3'')
   \<and> snd (snd (process_part demo_lib env_found demo_part Map.empty Map.empty))
       = [(CInt 1003, ''acme'', ''SCS'', ''2024-05-01T00:00:00Z'')
            \<mapsto> (CInt 10, ''Old Price from 2024-02-20'', CStr ''PO-3'')]
   \<and> map_option (\<lambda>res. (res_plex_price res, res_status res, res_po_no res))
        (fst (process_part demo_lib env_found demo_part Map.empty
           [(CInt 1003, ''acme'', ''SCS'', ''2024-05-01T00:00:00Z'')
              \<mapsto> (CInt 99, ''Success'', CStr ''PO-9'')]))
       = Some (CInt 99, ''Success'', CStr ''PO-9'')"
proof -
  have d: "part_date demo_part = Some (2024, 5, 17)" "timestamp_ok demo_lib (2024, 5, 17)"
    "timestamp_ok demo_lib (2024, 5, 3)"
    by (simp_all add: demo_part_def demo_lib_def)
  have a: "get_auth_for_pcn (decoded_auth env_found) (part_pcn demo_part)
      = Inr (''user'', ''secret'')"
    by (simp add: main_defs env_found_def)
  have n: "int_str (part_number demo_part) = ''12345''"
    "py_lower (py_strip (customer demo_part)) = ''acme''" "part_pcn demo_part = ''SCS''"
    "price demo_part = Fin 10"
    by (simp_all add: main_defs)
  have r: "retrieve_part_key demo_lib (part_key_api env_found ''user'' ''secret'' ''12345'')
      ''12345'' ''acme'' Map.empty = (CInt 1003, [], [''12345::acme'' \<mapsto> CInt 1003])"
    by (simp add: identity_defs main_defs env_found_def)
  have k: "truthy (CInt 1003)" by (simp add: truthy_def)
  have b: "nat_str 2024 @ ''-'' @ pad2 5 @ ''-01T00:00:00Z'' = ''2024-05-01T00:00:00Z''"
    by (simp add: nat_str_digit nat_str_more pad2_def digit_char_def)
  have e: "price_api env_found ''user'' ''secret'' (CInt 1003) ''2024-05-01T00:00:00Z''
      = PReply [po_feb] po_headers"
    "customer_code_to_name env_found ''acme'' = Some ''Acme''"
    "customer_names env_found = [''acme'']" "now env_found = demo_today"
    by (simp_all add: env_found_def)
  have q: "query_price_api demo_lib (PReply [po_feb] po_headers) ''2024-05-01T00:00:00Z''
      (Fin 10) ''Acme'' [''acme''] demo_today
      = (CInt 10, ''Old Price from 2024-02-20'', CStr ''PO-3'')"
    by (simp add: query_price_api_def price_defs)
  have m: "midnight (2024, 5, 1) = \<lparr>year = 2024, month = 5, day = 1, hour = 0, minute = 0,
      second = 0, microsecond = 0\<rparr>"
    by (simp add: midnight_def)
  note miss = month_start_key[where y = 2024 and m = 5 and dd = 17 and p = demo_part
      and E = env_found and L = demo_lib and u = "''user''" and pw = "''secret''"
      and k = "CInt 1003" and s = "[]" and pkc = Map.empty
      and pkc' = "[''12345::acme'' \<mapsto> CInt 1003]" and plc = Map.empty]
  note hit = month_start_key[where y = 2024 and m = 5 and dd = 17 and p = demo_part
      and E = env_found and L = demo_lib and u = "''user''" and pw = "''secret''"
      and k = "CInt 1003" and s = "[]" and pkc = Map.empty
      and pkc' = "[''12345::acme'' \<mapsto> CInt 1003]"
      and plc = "[(CInt 1003, ''acme'', ''SCS'', ''2024-05-01T00:00:00Z'')
              \<mapsto> (CInt 99, ''Success'', CStr ''PO-9'')]"]
  have nm: "((2024::nat), (5::nat), (17::nat)) \<noteq> (1, 1, 1)" by simp
  note miss' = miss[unfolded n b e q, OF d(1) d(2) nm a[unfolded n] r k]
  note hit' = hit[unfolded n b e q, OF d(1) d(2) nm a[unfolded n] r k]
  have c1: "compute_effective_month_start demo_lib demo_today (Some (2024, 5, 17))
       = (midnight (2024, 5, 1), ''2024-05-01T00:00:00Z'')"
    using conjunct1[OF miss'] by (simp add: midnight_def d)
  have c2: "compute_effective_month_start demo_lib demo_today (Some (2024, 5, 3))
       = (midnight (2024, 5, 1), ''2024-05-01T00:00:00Z'')"
    using spec[OF conjunct1[OF conjunct2[OF conjunct2[OF miss']]], of 3] c1 d by simp
  have c3: "map_option (\<lambda>res. (res_plex_price res, res_status res, res_po_no res))
        (fst (process_part demo_lib env_found demo_part Map.empty Map.empty))
       = Some (CInt 10, ''Old Price from 2024-02-20'', CStr ''PO-3'')
     \<and> snd (snd (process_part demo_lib env_found demo_part Map.empty Map.empty))
       = [(CInt 1003, ''acme'', ''SCS'', ''2024-05-01T00:00:00Z'')
            \<mapsto> (CInt 10, ''Old Price from 2024-02-20'', CStr ''PO-3'')]"
    using conjunct2[OF conjunct2[OF conjunct2[OF miss']]] by (auto simp: q)
  have h: "map_option (\<lambda>res. (res_plex_price res, res_status res, res_po_no res))
        (fst (process_part demo_lib env_found demo_part Map.empty
           [(CInt 1003, ''acme'', ''SCS'', ''2024-05-01T00:00:00Z'')
              \<mapsto> (CInt 99, ''Success'', CStr ''PO-9'')]))
       = Some (CInt 99, ''Success'', CStr ''PO-9'')"
    using conjunct2[OF conjunct2[OF conjunct2[OF hit']]] by (auto simp: q)
  show ?thesis using d(1,2) a r k c1 c2 c3 h by simp
qed

lemma select_part_key_status:
  "select_part_key_from_rows L rows headers cc enf = Inr (k, s) \<Longrightarrow> s = []"
  by (auto simp: select_part_key_from_rows_def Let_def split: option.splits sum.splits if_splits)

lemma lookup_both_status: "lookup_both L api cc = Inr (k, s) \<Longrightarrow> s = []"
  by (auto simp: lookup_both_def split: api_reply.splits sum.splits if_splits prod.splits
      dest: select_part_key_status)

text \<open>The only statuses of \<open>retrieve_part_key\<close> are the empty one and \<open>Timed Out\<close>.\<close>

lemma retrieve_part_key_status:
  "retrieve_part_key L api part_no cc cache = (k, s, cache') \<Longrightarrow> s = [] \<or> s = ''Timed Out''"
  by (auto simp: retrieve_part_key_def Let_def
      split: if_splits sum.splits py_error.splits prod.splits dest: lookup_both_status)

text \<open>
  Claim C10. For a part with credentials whose part key lookup gives no part key: with
  the empty lookup status the result gets the status \<open>No part found (no Part_Key)\<close> and
  is left out of the results written to the report; with any other lookup status the
  result is kept in the results, with that status and the chart price as Plex price.
\<close>

theorem missing_part_key_reporting:
  assumes auth: "get_auth_for_pcn (decoded_auth E) (part_pcn p) = Inr (u, pw)"
    and retr: "retrieve_part_key L (part_key_api E u pw (int_str (part_number p)))
                 (int_str (part_number p)) (py_lower (py_strip (customer p))) pkc
               = (k, s, pkc')"
    and nokey: "\<not> truthy k"
  shows "(s = [] \<longrightarrow>
           (\<exists>res. process_part L E p pkc plc = (Some res, pkc', plc)
              \<and> res_status res = ''No part found (no Part_Key)'')
         \<and> fst (process_parts L E (p # ps) pkc plc) = fst (process_parts L E ps pkc' plc))
       \<and> (s \<noteq> [] \<longrightarrow>
           (\<exists>res. process_part L E p pkc plc = (Some res, pkc', plc)
              \<and> res_status res = s \<and> res_plex_price res = CFloat (price p)
              \<and> res_chart_price res = price p
              \<and> fst (process_parts L E (p # ps) pkc plc)
                = res # fst (process_parts L E ps pkc' plc)))"
proof -
  define status_v where
    "status_v = (if s \<noteq> [] then s else ''No part found (no Part_Key)'')"
  obtain res where pp: "process_part L E p pkc plc = (Some res, pkc', plc)"
    and rs: "res_status res = status_v" and rp: "res_plex_price res = CFloat (price p)"
    and rc: "res_chart_price res = price p"
    using auth retr nokey by (simp add: process_part_def Let_def status_v_def)
  have timed: "s = [] \<or> s = ''Timed Out''" using retrieve_part_key_status[OF retr] .
  have step: "fst (process_parts L E (p # ps) pkc plc) =
      (if res_status res = ''No part found (no Part_Key)''
       then fst (process_parts L E ps pkc' plc)
       else res # fst (process_parts L E ps pkc' plc))"
    using pp by (simp add: Let_def split: prod.splits)
  show ?thesis
  proof (cases "s = []")
    case True
    then show ?thesis using pp rs step by (simp add: status_v_def)
  next
    case False
    then have "s = ''Timed Out''" using timed by simp
    then show ?thesis using pp rs rp rc step by (simp add: status_v_def)
  qed
qed

theorem missing_part_key_reporting_witness:
  "get_auth_for_pcn (decoded_auth env_nothing) (part_pcn demo_part) = Inr (''user'', ''secret'')
   \<and> retrieve_part_key demo_lib (part_key_api env_nothing ''user'' ''secret'' ''12345'')
        ''12345'' ''acme'' Map.empty = (CNone, [], Map.empty)
   \<and> retrieve_part_key demo_lib (part_key_api env_timeout ''user'' ''secret'' ''12345'')
        ''12345'' ''acme'' Map.empty = (CNone, ''Timed Out'', Map.empty)
   \<and> fst (process_parts demo_lib env_nothing [demo_part] Map.empty Map.empty) = []
   \<and> map (\<lambda>res. (res_status res, res_plex_price res))
        (fst (process_parts demo_lib env_timeout [demo_part] Map.empty Map.empty))
       = [(''Timed Out'', CFloat (Fin 10))]"
  using missing_part_key_reporting[of env_nothing demo_part "''user''" "''secret''" demo_lib
      Map.empty CNone "[]" Map.empty Map.empty "[]"]
    missing_part_key_reporting[of env_timeout demo_part "''user''" "''secret''" demo_lib
      Map.empty CNone "''Timed Out''" Map.empty Map.empty "[]"]
  by (simp add: main_defs)


end
